theory Spec2Isabelle
  imports Main "HOL-Library.FSet"
begin

section \<open>TL objects, exceptions and the collaborators of the session\<close>

text \<open>
  The embedding follows \<^verbatim>\<open>pyrogram/session/session.py\<close> (the asyncio version of
  \<^verbatim>\<open>class Session\<close>). Python objects become datatypes and records, exceptions become
  the left summand of a result, and every method takes the session and returns it
  updated. A suspension point (\<^verbatim>\<open>await\<close>) at which other tasks run takes the activity
  of those tasks as a function on the session.
\<close>

datatype future_salt = FutureSalt (valid_since: int) (valid_until: int) (salt: int)

datatype 'b message = Message (msg_id: int) (seq_no: int) (body: 'b)

text \<open>
  Modelled from the spec: the TL type declarations (\<^verbatim>\<open>pyrogram.api.types\<close>,
  \<^verbatim>\<open>pyrogram.api.functions\<close>, \<^verbatim>\<open>pyrogram.api.core\<close>) are not part of the source file.
  Each constructor carries the attributes that \<^verbatim>\<open>session.py\<close> reads or the spec names:
  \<^verbatim>\<open>bad_msg_notification{bad_msg_id, error_code}\<close>,
  \<^verbatim>\<open>bad_server_salt{bad_msg_id, new_server_salt}\<close>,
  \<^verbatim>\<open>future_salts{req_msg_id, salts}\<close>, \<^verbatim>\<open>rpc_result{req_msg_id, result}\<close>,
  \<^verbatim>\<open>pong{msg_id, new_server_salt}\<close> (the spec has the pong carry the new server salt),
  \<^verbatim>\<open>rpc_error{error_code, error_message}\<close>, and
  \<^verbatim>\<open>msg_detailed_info{answer_msg_id}\<close>. \<open>Other\<close> stands for every other TL object
  (an update, a config, ...), named by its type.
\<close>

datatype tl =
    Ping int
  | PingDelayDisconnect int int
  | GetFutureSalts int
  | GetConfig
  | InitConnection int string string string string string string tl
  | InvokeWithLayer int tl
  | HttpWait
  | MsgsAck "int fset"
  | MsgContainer "tl message list"
  | MsgDetailedInfo int
  | MsgNewDetailedInfo int
  | NewSessionCreated
  | BadMsgNotification int int
  | BadServerSalt int int
  | FutureSalts int "future_salt list"
  | RpcResult int tl
  | Pong int int
  | RpcError int string
  | Other string

text \<open>\<^verbatim>\<open>type(data)\<close>, as the name of the class.\<close>

fun type_name :: "tl \<Rightarrow> string" where
  "type_name (Ping _) = ''Ping''"
| "type_name (PingDelayDisconnect _ _) = ''PingDelayDisconnect''"
| "type_name (GetFutureSalts _) = ''GetFutureSalts''"
| "type_name GetConfig = ''GetConfig''"
| "type_name (InitConnection _ _ _ _ _ _ _ _) = ''InitConnection''"
| "type_name (InvokeWithLayer _ _) = ''InvokeWithLayer''"
| "type_name HttpWait = ''HttpWait''"
| "type_name (MsgsAck _) = ''MsgsAck''"
| "type_name (MsgContainer _) = ''MsgContainer''"
| "type_name (MsgDetailedInfo _) = ''MsgDetailedInfo''"
| "type_name (MsgNewDetailedInfo _) = ''MsgNewDetailedInfo''"
| "type_name NewSessionCreated = ''NewSessionCreated''"
| "type_name (BadMsgNotification _ _) = ''BadMsgNotification''"
| "type_name (BadServerSalt _ _) = ''BadServerSalt''"
| "type_name (FutureSalts _ _) = ''FutureSalts''"
| "type_name (RpcResult _ _) = ''RpcResult''"
| "type_name (Pong _ _) = ''Pong''"
| "type_name (RpcError _ _) = ''RpcError''"
| "type_name (Other n) = n"

text \<open>
  The exceptions that can travel through the session. \<open>TimeoutError\<close> is Python's builtin,
  a subclass of \<open>OSError\<close>; \<open>Error code message request\<close> is \<^verbatim>\<open>pyrogram.api.errors.Error\<close>
  with the type of the request it answers; \<open>Exception text\<close> is a bare
  \<^verbatim>\<open>Exception(text)\<close>; the four codec errors are those of \<^verbatim>\<open>MTProto.unpack\<close>.
\<close>

datatype exn =
    OSError
  | TimeoutError
  | AttributeError
  | TypeError
  | KeyError
  | IndexError
  | AuthKeyMismatch
  | SessionIdMismatch
  | MsgKeyMismatch
  | BadMsgId
  | Error int string string
  | Exception string

fun is_OSError :: "exn \<Rightarrow> bool" where
  "is_OSError OSError = True"
| "is_OSError TimeoutError = True"
| "is_OSError _ = False"

fun is_TimeoutError :: "exn \<Rightarrow> bool" where
  "is_TimeoutError TimeoutError = True"
| "is_TimeoutError _ = False"

fun is_Error :: "exn \<Rightarrow> bool" where
  "is_Error (Error _ _ _) = True"
| "is_Error _ = False"

text \<open>
  Modelled from the spec: \<^verbatim>\<open>pyrogram.api.errors\<close> is not part of the source file.
  \<^verbatim>\<open>Error.raise_it\<close> raises the mapped domain error (code and message) tagged with the
  original request type, and \<open>InternalServerError\<close> is the subset of these errors that
  indicates a server 5xx.
\<close>

definition raise_it :: "int \<Rightarrow> string \<Rightarrow> string \<Rightarrow> exn" where
  "raise_it code message request = Error code message request"

fun is_InternalServerError :: "exn \<Rightarrow> bool" where
  "is_InternalServerError (Error code _ _) = (500 \<le> code \<and> code < 600)"
| "is_InternalServerError _ = False"

subsection \<open>Message identifiers and the message factory\<close>

text \<open>
  Modelled from the spec: \<^verbatim>\<open>MsgId\<close> and \<^verbatim>\<open>MsgFactory\<close> live in
  \<^verbatim>\<open>pyrogram/session/internals\<close>, which is not part of the source file. The factory keeps
  the sequence counter and the last identifier handed out; \<open>clock_id\<close> is the value
  derived from the current UTC time, a field that the environment advances. The
  identifier has its two low bits forced to 0 and is stepped by 4 until it exceeds the
  previous one. A content-related object gets \<open>counter * 2 + 1\<close> and increments the
  counter; acks, pings, http_wait and containers get \<open>counter * 2\<close>.
\<close>

record factory =
  seq_counter :: int
  last_msg_id :: int
  clock_id :: int

definition MsgId :: "factory \<Rightarrow> int" where
  "MsgId f =
     (let d = clock_id f - clock_id f mod 4
      in if last_msg_id f < d then d else d + 4 * ((last_msg_id f - d) div 4 + 1))"

fun content_related :: "tl \<Rightarrow> bool" where
  "content_related (MsgsAck _) = False"
| "content_related (Ping _) = False"
| "content_related (PingDelayDisconnect _ _) = False"
| "content_related HttpWait = False"
| "content_related (MsgContainer _) = False"
| "content_related _ = True"

definition MsgFactory :: "factory \<Rightarrow> tl \<Rightarrow> tl message \<times> factory" where
  "MsgFactory f data =
     (let i = MsgId f
      in if content_related data
         then (Message i (seq_counter f * 2 + 1) data,
               f\<lparr>seq_counter := seq_counter f + 1, last_msg_id := i\<rparr>)
         else (Message i (seq_counter f * 2) data, f\<lparr>last_msg_id := i\<rparr>))"

subsection \<open>The codec\<close>

text \<open>
  Modelled from the spec: \<^verbatim>\<open>pyrogram.crypto.MTProto\<close> is not part of the source file.
  Encryption is kept symbolic: a packet is the record of what \<open>pack\<close> seals into it, and
  \<open>msg_key_ok\<close> says whether its message key verifies. \<open>unpack\<close> makes the checks of the
  spec in their order: the key identifier, the session identifier, the message key, and
  the low bit of a server message identifier. An \<^verbatim>\<open>AssertionError\<close>-like failure is one
  of the four codec errors.
\<close>

datatype packet =
  Packet (pk_auth_key_id: "nat list") (pk_session_id: int) (pk_salt: int)
         (pk_msg_key_ok: bool) (pk_message: "tl message")

definition pack :: "tl message \<Rightarrow> int \<Rightarrow> int \<Rightarrow> nat list \<Rightarrow> nat list \<Rightarrow> packet" where
  "pack message salt0 session_id0 auth_key0 auth_key_id0 =
     Packet auth_key_id0 session_id0 salt0 True message"

definition unpack :: "packet \<Rightarrow> int \<Rightarrow> int \<Rightarrow> nat list \<Rightarrow> nat list \<Rightarrow> exn + tl message" where
  "unpack b salt0 session_id0 auth_key0 auth_key_id0 =
     (if pk_auth_key_id b \<noteq> auth_key_id0 then Inl AuthKeyMismatch
      else if pk_session_id b \<noteq> session_id0 then Inl SessionIdMismatch
      else if \<not> pk_msg_key_ok b then Inl MsgKeyMismatch
      else if msg_id (pk_message b) mod 2 = 0 then Inl BadMsgId
      else Inr (pk_message b))"

text \<open>
  \<^verbatim>\<open>MTProto.INITIAL_SALT\<close>: the constant of the threaded version of the class kept at the
  end of the source file.
\<close>

definition INITIAL_SALT :: int where
  "INITIAL_SALT = 0x616e67656c696361"

subsection \<open>The transport and the client\<close>

text \<open>
  Modelled from the spec: \<^verbatim>\<open>pyrogram.connection.Connection\<close> is not part of the source
  file. The transport is scripted: \<open>outbox\<close> is what has been written to it, and
  \<open>faults\<close> is the outcome of the coming writes, one entry per \<open>send\<close> (\<open>None\<close>, or no
  entry left, is success; \<open>Some e\<close> raises \<open>e\<close>).
\<close>

record connection =
  closed :: bool
  outbox :: "packet list"
  faults :: "exn option list"

definition conn_send :: "connection \<Rightarrow> packet \<Rightarrow> exn option \<times> connection" where
  "conn_send c payload =
     (case faults c of
        [] \<Rightarrow> (None, c\<lparr>outbox := outbox c @ [payload]\<rparr>)
      | None # fs \<Rightarrow> (None, c\<lparr>outbox := outbox c @ [payload], faults := fs\<rparr>)
      | Some e # fs \<Rightarrow> (Some e, c\<lparr>faults := fs\<rparr>))"

definition conn_close :: "connection \<Rightarrow> connection" where
  "conn_close c = c\<lparr>closed := True\<rparr>"

text \<open>
  Modelled from the spec: the client that owns the session is external. It offers the
  queue of updates and an optional disconnect handler: \<open>None\<close> is no callable handler,
  \<open>Some raises\<close> a handler that raises when \<open>raises\<close> holds; \<open>disconnects\<close> counts its
  invocations.
\<close>

record client =
  updates_queue :: "tl list"
  disconnect_handler :: "bool option"
  disconnects :: nat

subsection \<open>The session\<close>

text \<open>\<^verbatim>\<open>class Result\<close>: a value, \<open>None\<close> at first, and an event.\<close>

record result =
  "value" :: "tl option"
  event :: bool

definition Result :: result where
  "Result = \<lparr>value = None, event = False\<rparr>"

text \<open>An \<^verbatim>\<open>asyncio\<close> task handle: still running, or finished.\<close>

datatype task = Running | Finished

text \<open>
  The fields of \<^verbatim>\<open>Session.__init__\<close>. The queue holds packets and the \<open>None\<close>
  sentinel. \<open>salt_trace\<close> is not a field of the class: it records every assignment to
  \<^verbatim>\<open>self.current_salt\<close>, oldest first. \<open>layer\<close>, \<open>DEVICE_MODEL\<close>, \<open>SYSTEM_VERSION\<close>
  and \<open>APP_VERSION\<close> are the constants of the platform and of \<^verbatim>\<open>pyrogram.api.all\<close>.
\<close>

record session =
  dc_id :: int
  test_mode :: bool
  api_id :: int
  is_cdn :: bool
  client :: "client option"
  connection :: "connection option"
  auth_key :: "nat list"
  auth_key_id :: "nat list"
  session_id :: int
  msg_factory :: factory
  current_salt :: "future_salt option"
  pending_acks :: "int fset"
  recv_queue :: "packet option list"
  results :: "int \<rightharpoonup> result"
  ping_task :: "task option"
  ping_task_event :: bool
  next_salt_task :: "task option"
  next_salt_task_event :: bool
  net_worker_task :: "task option"
  recv_task :: "task option"
  is_connected :: bool
  salt_trace :: "future_salt list"
  layer :: int
  DEVICE_MODEL :: string
  SYSTEM_VERSION :: string
  APP_VERSION :: string

definition WAIT_TIMEOUT :: nat where
  "WAIT_TIMEOUT = 15"

definition MAX_RETRIES :: int where
  "MAX_RETRIES = 5"

definition ACKS_THRESHOLD :: nat where
  "ACKS_THRESHOLD = 8"

subsection \<open>The send path\<close>

definition BAD_MSG_DESCRIPTION :: "(int \<times> string) list" where
  "BAD_MSG_DESCRIPTION =
     [(16, ''[16] msg_id too low, the client time has to be synchronized''),
      (17, ''[17] msg_id too high, the client time has to be synchronized''),
      (18, ''[18] incorrect two lower order msg_id bits, the server expects client message msg_id to be divisible by 4''),
      (19, ''[19] container msg_id is the same as msg_id of a previously received message''),
      (20, ''[20] message too old, it cannot be verified by the server''),
      (32, ''[32] msg_seqno too low''),
      (33, ''[33] msg_seqno too high''),
      (34, ''[34] an even msg_seqno expected, but odd received''),
      (35, ''[35] odd msg_seqno expected, but even received''),
      (48, ''[48] incorrect server salt''),
      (64, ''[64] invalid container'')]"

text \<open>\<^verbatim>\<open>"{}".format(n)\<close> for an integer: its decimal digits, with a minus sign when negative.\<close>

definition digit :: "nat \<Rightarrow> char" where
  "digit d = ''0123456789'' ! d"

function str_nat :: "nat \<Rightarrow> string" where
  "str_nat n = (if n < 10 then [digit n] else str_nat (n div 10) @ [digit (n mod 10)])"
  by pat_completeness auto
termination
  by (relation "measure (\<lambda>n. n)") auto

definition str_int :: "int \<Rightarrow> string" where
  "str_int i = (if i < 0 then CHR ''-'' # str_nat (nat (- i)) else str_nat (nat i))"

text \<open>\<^verbatim>\<open>self.BAD_MSG_DESCRIPTION.get(code, "Error code {}".format(code))\<close>\<close>

definition bad_msg_text :: "int \<Rightarrow> string" where
  "bad_msg_text code =
     (case map_of BAD_MSG_DESCRIPTION code of
        Some text \<Rightarrow> text
      | None \<Rightarrow> ''Error code '' @ str_int code)"

text \<open>
  The end of \<^verbatim>\<open>_send\<close>: what the popped slot value makes of the call, for the request
  \<open>data\<close>.
\<close>

fun raise_or_return :: "tl option \<Rightarrow> tl \<Rightarrow> exn + tl option" where
  "raise_or_return None data = Inl TimeoutError"
| "raise_or_return (Some (RpcError code message)) data =
     Inl (raise_it code message (type_name data))"
| "raise_or_return (Some (BadMsgNotification i code)) data =
     Inl (Exception (bad_msg_text code))"
| "raise_or_return (Some v) data = Inr (Some v)"

text \<open>
  The second half of \<^verbatim>\<open>_send\<close>, for \<^verbatim>\<open>wait_response\<close>: the caller waits on the event
  of its slot for at most \<open>WAIT_TIMEOUT\<close>; \<open>during\<close> is what the other tasks do to the
  session until the caller runs again, whether the event fired or the wait timed out
  (the timeout is swallowed). Then the slot is popped; \<^verbatim>\<open>pop\<close> of a missing key raises.
\<close>

definition await_result ::
  "(session \<Rightarrow> session) \<Rightarrow> session \<Rightarrow> int \<Rightarrow> tl \<Rightarrow> (exn + tl option) \<times> session" where
  "await_result during s i data =
     (let s' = during s
      in case results s' i of
           None \<Rightarrow> (Inl KeyError, s')
         | Some r \<Rightarrow> (raise_or_return (value r) data, s'\<lparr>results := (results s')(i := None)\<rparr>))"

text \<open>
  \<^verbatim>\<open>Session._send\<close>. With \<^verbatim>\<open>wait_response\<close> false it returns Python's \<open>None\<close> after the
  write. Reading \<^verbatim>\<open>self.current_salt.salt\<close> or \<^verbatim>\<open>self.connection.send\<close> on \<open>None\<close>
  raises \<open>AttributeError\<close>; only an \<open>OSError\<close> of the write removes the slot.
\<close>

definition priv_send ::
  "(session \<Rightarrow> session) \<Rightarrow> session \<Rightarrow> tl \<Rightarrow> bool \<Rightarrow> (exn + tl option) \<times> session" where
  "priv_send during s data wait_response =
     (let (message, f) = MsgFactory (msg_factory s) data;
          i = msg_id message;
          s1 = s\<lparr>msg_factory := f\<rparr>;
          s2 = (if wait_response then s1\<lparr>results := (results s1)(i \<mapsto> Result)\<rparr> else s1)
      in case current_salt s2 of
           None \<Rightarrow> (Inl AttributeError, s2)
         | Some cs \<Rightarrow>
            (let payload = pack message (salt cs) (session_id s2) (auth_key s2) (auth_key_id s2)
             in case connection s2 of
                  None \<Rightarrow> (Inl AttributeError, s2)
                | Some c \<Rightarrow>
                   (case conn_send c payload of
                      (Some e, c') \<Rightarrow>
                        if is_OSError e
                        then (Inl e, s2\<lparr>connection := Some c',
                                         results := (results s2)(i := None)\<rparr>)
                        else (Inl e, s2\<lparr>connection := Some c'\<rparr>)
                    | (None, c') \<Rightarrow>
                        if wait_response
                        then await_result during (s2\<lparr>connection := Some c'\<rparr>) i data
                        else (Inr None, s2\<lparr>connection := Some c'\<rparr>))))"

subsection \<open>The worker\<close>

text \<open>\<^verbatim>\<open>getattr(msg.body, "result", msg.body)\<close>: only \<open>rpc_result\<close> has the attribute.\<close>

fun getattr_result :: "tl \<Rightarrow> tl" where
  "getattr_result (RpcResult i r) = r"
| "getattr_result b = b"

text \<open>
  The chain of \<^verbatim>\<open>isinstance\<close> tests that picks the request a body answers; in its
  \<^verbatim>\<open>else\<close> branch the body goes to the updates queue of the client, if there is one.
\<close>

fun route :: "tl \<Rightarrow> session \<Rightarrow> int option \<times> session" where
  "route (BadMsgNotification i c) s = (Some i, s)"
| "route (BadServerSalt i n) s = (Some i, s)"
| "route (FutureSalts i ss) s = (Some i, s)"
| "route (RpcResult i r) s = (Some i, s)"
| "route (Pong i n) s = (Some i, s)"
| "route b s =
     (None, case client s of
              None \<Rightarrow> s
            | Some c \<Rightarrow> s\<lparr>client := Some (c\<lparr>updates_queue := updates_queue c @ [b]\<rparr>)\<rparr>)"

text \<open>\<^verbatim>\<open>if msg_id in self.results\<close>: store the value and set the event of the slot.\<close>

definition resolve :: "int option \<Rightarrow> tl \<Rightarrow> session \<Rightarrow> session" where
  "resolve i b s =
     (case i of
        None \<Rightarrow> s
      | Some m \<Rightarrow>
         (case results s m of
            None \<Rightarrow> s
          | Some r \<Rightarrow>
             s\<lparr>results := (results s)(m \<mapsto> r\<lparr>value := Some (getattr_result b), event := True\<rparr>)\<rparr>))"

text \<open>The dispatch of one message body, from \<^verbatim>\<open>msg_id = None\<close> to the end of the loop body.\<close>

definition dispatch :: "tl \<Rightarrow> session \<Rightarrow> session" where
  "dispatch b s = (case route b s of (i, s1) \<Rightarrow> resolve i b s1)"

text \<open>The body of \<^verbatim>\<open>for msg in messages\<close>, each \<^verbatim>\<open>continue\<close> returning the session.\<close>

definition process_msg :: "tl message \<Rightarrow> session \<Rightarrow> session" where
  "process_msg msg s =
     (if seq_no msg mod 2 \<noteq> 0 \<and> msg_id msg |\<in>| pending_acks s then s
      else
        let s1 = (if seq_no msg mod 2 \<noteq> 0
                  then s\<lparr>pending_acks := finsert (msg_id msg) (pending_acks s)\<rparr>
                  else s)
        in case body msg of
             MsgDetailedInfo a \<Rightarrow> s1\<lparr>pending_acks := finsert a (pending_acks s1)\<rparr>
           | MsgNewDetailedInfo a \<Rightarrow> s1\<lparr>pending_acks := finsert a (pending_acks s1)\<rparr>
           | NewSessionCreated \<Rightarrow> s1
           | b \<Rightarrow> dispatch b s1)"

text \<open>
  The flush of the acknowledgements after the loop: \<^verbatim>\<open>_send(MsgsAck(list(pending_acks)),
  False)\<close>. The order of \<^verbatim>\<open>list\<close> of a set is not fixed, so the payload is the set. An
  \<open>OSError\<close> or \<open>TimeoutError\<close> is passed over; any other exception goes on to the
  handler around the packet.
\<close>

definition flush_acks :: "session \<Rightarrow> (exn + unit) \<times> session" where
  "flush_acks s =
     (if ACKS_THRESHOLD \<le> fcard (pending_acks s)
      then (case priv_send id s (MsgsAck (pending_acks s)) False of
              (Inl e, s1) \<Rightarrow>
                if is_OSError e \<or> is_TimeoutError e then (Inr (), s1) else (Inl e, s1)
            | (Inr r, s1) \<Rightarrow> (Inr (), s1\<lparr>pending_acks := {||}\<rparr>))
      else (Inr (), s))"

text \<open>
  The body of the worker's loop for one packet. Every exception inside it (a missing
  salt, a codec error, a failure of the flush) is logged and dropped by
  \<^verbatim>\<open>except Exception\<close>, keeping what was done before it.
\<close>

definition process_packet :: "packet \<Rightarrow> session \<Rightarrow> session" where
  "process_packet p s =
     (case current_salt s of
        None \<Rightarrow> s
      | Some cs \<Rightarrow>
         (case unpack p (salt cs) (session_id s) (auth_key s) (auth_key_id s) of
            Inl e \<Rightarrow> s
          | Inr data \<Rightarrow>
             (let messages = (case body data of MsgContainer ms \<Rightarrow> ms | _ \<Rightarrow> [data])
              in snd (flush_acks (fold process_msg messages s)))))"

text \<open>
  \<^verbatim>\<open>Session.net_worker\<close>, run on the queue as it stands: packets are taken in order; the
  \<open>None\<close> sentinel ends the task; on an empty queue the task stays blocked in \<^verbatim>\<open>get\<close>.
\<close>

fun net_worker_loop :: "packet option list \<Rightarrow> session \<Rightarrow> session" where
  "net_worker_loop [] s = s\<lparr>recv_queue := []\<rparr>"
| "net_worker_loop (None # q) s = s\<lparr>recv_queue := q, net_worker_task := Some Finished\<rparr>"
| "net_worker_loop (Some p # q) s = net_worker_loop q (process_packet p (s\<lparr>recv_queue := q\<rparr>))"

definition net_worker :: "session \<Rightarrow> session" where
  "net_worker s = net_worker_loop (recv_queue s) s"

text \<open>
  What a scripted transport makes happen while a caller is suspended: the receive task
  puts the arriving packets into the queue and the worker, if it is running, takes them.
\<close>

definition deliver :: "packet list \<Rightarrow> session \<Rightarrow> session" where
  "deliver ps s =
     (let s1 = s\<lparr>recv_queue := recv_queue s @ map Some ps\<rparr>
      in if net_worker_task s1 = Some Running then net_worker s1 else s1)"

subsection \<open>Lifecycle\<close>

text \<open>
  \<^verbatim>\<open>Session.__init__\<close>. The digest of the key, the first message identifier and the
  constants of the platform come from outside and are arguments.
\<close>

definition init ::
  "int \<Rightarrow> bool \<Rightarrow> nat list \<Rightarrow> int \<Rightarrow> bool \<Rightarrow> client option \<Rightarrow>
   nat list \<Rightarrow> int \<Rightarrow> int \<Rightarrow> int \<Rightarrow> string \<Rightarrow> string \<Rightarrow> string \<Rightarrow> session" where
  "init dc test key api cdn cl key_id sid clock lay device system app =
     \<lparr>dc_id = dc, test_mode = test, api_id = api, is_cdn = cdn, client = cl,
      connection = None, auth_key = key, auth_key_id = key_id, session_id = sid,
      msg_factory = \<lparr>seq_counter = 0, last_msg_id = sid, clock_id = clock\<rparr>,
      current_salt = None, pending_acks = {||}, recv_queue = [], results = Map.empty,
      ping_task = None, ping_task_event = False,
      next_salt_task = None, next_salt_task_event = False,
      net_worker_task = None, recv_task = None, is_connected = False,
      salt_trace = [], layer = lay,
      DEVICE_MODEL = device, SYSTEM_VERSION = system, APP_VERSION = app\<rparr>"

text \<open>
  The keys of \<open>results\<close> are identifiers that the factory has handed out: \<^verbatim>\<open>_send\<close>
  is the only place that adds a slot, under the identifier of the message it has just
  built.
\<close>

definition ids_issued :: "session \<Rightarrow> bool" where
  "ids_issued s = (\<forall>i \<in> dom (results s). i \<le> last_msg_id (msg_factory s))"

text \<open>The loop at the end of \<^verbatim>\<open>stop\<close>: the event of every slot is set.\<close>

definition release_all :: "(int \<rightharpoonup> result) \<Rightarrow> (int \<rightharpoonup> result)" where
  "release_all rs = (\<lambda>i. map_option (\<lambda>r. r\<lparr>event := True\<rparr>) (rs i))"

text \<open>The call of the disconnect handler, whose exception is logged and dropped.\<close>

definition notify_disconnect :: "client option \<Rightarrow> client option" where
  "notify_disconnect co =
     (case co of
        None \<Rightarrow> None
      | Some c \<Rightarrow>
         (case disconnect_handler c of
            None \<Rightarrow> Some c
          | Some raises \<Rightarrow> Some (c\<lparr>disconnects := disconnects c + 1\<rparr>)))"

text \<open>
  \<^verbatim>\<open>Session.stop\<close>. The ping and salt tasks see their events and end; the receive task
  sees the closed transport, with \<open>is_connected\<close> cleared, and ends; a running worker
  takes what is left in the queue up to the sentinel. \<^verbatim>\<open>self.connection.close()\<close> on
  \<open>None\<close> raises \<open>AttributeError\<close> and \<^verbatim>\<open>await None\<close> raises \<open>TypeError\<close>. Callers of
  \<^verbatim>\<open>_send\<close> stay suspended while \<open>stop\<close> runs.
\<close>

definition stop :: "session \<Rightarrow> (exn + unit) \<times> session" where
  "stop s =
     (let s1 = s\<lparr>is_connected := False, ping_task_event := True, next_salt_task_event := True\<rparr>;
          s2 = s1\<lparr>ping_task := map_option (\<lambda>t. Finished) (ping_task s1)\<rparr>;
          s3 = s2\<lparr>next_salt_task := map_option (\<lambda>t. Finished) (next_salt_task s2)\<rparr>;
          s4 = s3\<lparr>ping_task_event := False, next_salt_task_event := False\<rparr>
      in case connection s4 of
           None \<Rightarrow> (Inl AttributeError, s4)
         | Some c \<Rightarrow>
            (let s5 = s4\<lparr>connection := Some (conn_close c)\<rparr>
             in case recv_task s5 of
                  None \<Rightarrow> (Inl TypeError, s5)
                | Some t \<Rightarrow>
                   (let s6 = s5\<lparr>recv_task := Some Finished\<rparr>;
                        s7 = s6\<lparr>recv_queue := recv_queue s6 @ [None]\<rparr>
                    in case net_worker_task s7 of
                         None \<Rightarrow> (Inl TypeError, s7)
                       | Some w \<Rightarrow>
                          (let s8 = (case w of Running \<Rightarrow> net_worker s7 | Finished \<Rightarrow> s7);
                               s9 = s8\<lparr>results := release_all (results s8)\<rparr>
                           in (Inr (), s9\<lparr>client := notify_disconnect (client s9)\<rparr>)))))"

text \<open>
  The attribute reads of \<^verbatim>\<open>start\<close> on what \<^verbatim>\<open>_send\<close> returned:
  \<^verbatim>\<open>.new_server_salt\<close> and \<^verbatim>\<open>.salts[0]\<close>.
\<close>

fun new_server_salt :: "tl option \<Rightarrow> exn + int" where
  "new_server_salt (Some (BadServerSalt i n)) = Inr n"
| "new_server_salt (Some (Pong i n)) = Inr n"
| "new_server_salt _ = Inl AttributeError"

fun first_salt :: "tl option \<Rightarrow> exn + future_salt" where
  "first_salt (Some (FutureSalts i (x # xs))) = Inr x"
| "first_salt (Some (FutureSalts i [])) = Inl IndexError"
| "first_salt _ = Inl AttributeError"

text \<open>\<^verbatim>\<open>self.current_salt = x\<close>\<close>

definition assign_salt :: "future_salt \<Rightarrow> session \<Rightarrow> session" where
  "assign_salt x s = s\<lparr>current_salt := Some x, salt_trace := salt_trace s @ [x]\<rparr>"

text \<open>
  What the outside does during one pass of the loop of \<^verbatim>\<open>start\<close>: the transport that
  \<^verbatim>\<open>Connection(...)\<close> builds, the outcome of \<^verbatim>\<open>connect\<close>, and the activity of the other
  tasks during each of the three waits for a response.
\<close>

record pass_env =
  fresh_connection :: connection
  connect_fault :: "exn option"
  on_ping :: "session \<Rightarrow> session"
  on_salts :: "session \<Rightarrow> session"
  on_init :: "session \<Rightarrow> session"


text \<open>The \<^verbatim>\<open>try\<close> block of \<^verbatim>\<open>start\<close>: one pass, ending at its first exception.\<close>

definition start_pass :: "pass_env \<Rightarrow> session \<Rightarrow> (exn + unit) \<times> session" where
  "start_pass e s =
     (let s0 = s\<lparr>connection := Some (fresh_connection e)\<rparr>
      in case connect_fault e of
           Some x \<Rightarrow> (Inl x, s0)
         | None \<Rightarrow>
            (let s1 = s0\<lparr>net_worker_task := Some Running, recv_task := Some Running\<rparr>;
                 s2 = assign_salt (FutureSalt 0 0 INITIAL_SALT) s1
             in case priv_send (on_ping e) s2 (Ping 0) True of
                  (Inl x, s3) \<Rightarrow> (Inl x, s3)
                | (Inr pong, s3) \<Rightarrow>
                   (case new_server_salt pong of
                      Inl x \<Rightarrow> (Inl x, s3)
                    | Inr n \<Rightarrow>
                       (case priv_send (on_salts e) (assign_salt (FutureSalt 0 0 n) s3)
                               (GetFutureSalts 1) True of
                          (Inl x, s5) \<Rightarrow> (Inl x, s5)
                        | (Inr future, s5) \<Rightarrow>
                           (case first_salt future of
                              Inl x \<Rightarrow> (Inl x, s5)
                            | Inr f \<Rightarrow>
                               (let s6 = assign_salt f s5;
                                    s7 = s6\<lparr>next_salt_task := Some Running\<rparr>
                                in if \<not> is_cdn s7
                                   then (case priv_send (on_init e) s7
                                                (InvokeWithLayer (layer s7)
                                                   (InitConnection (api_id s7) (DEVICE_MODEL s7)
                                                      (SYSTEM_VERSION s7) (APP_VERSION s7)
                                                      ''en'' [] ''en'' GetConfig)) True of
                                           (Inl x, s8) \<Rightarrow> (Inl x, s8)
                                         | (Inr r, s8) \<Rightarrow> (Inr (), s8\<lparr>ping_task := Some Running\<rparr>))
                                   else (Inr (), s7\<lparr>ping_task := Some Running\<rparr>)))))))"

text \<open>
  \<^verbatim>\<open>Session.start\<close>: \<^verbatim>\<open>while True\<close> over the passes, pass \<open>k\<close> meeting \<open>env k\<close>. After
  \<open>OSError\<close>, \<open>TimeoutError\<close> or \<open>Error\<close> the session is stopped and the next pass runs;
  after any other exception it is stopped and the exception raised; an exception of
  \<open>stop\<close> itself leaves the handler. The loop may go on for ever: \<open>None\<close>.
\<close>

partial_function (option) start ::
  "(nat \<Rightarrow> pass_env) \<Rightarrow> nat \<Rightarrow> session \<Rightarrow> ((exn + unit) \<times> session) option" where
  "start env k s =
     (case start_pass (env k) s of
        (Inr u, s1) \<Rightarrow> Some (Inr (), s1\<lparr>is_connected := True\<rparr>)
      | (Inl x, s1) \<Rightarrow>
         (case stop s1 of
            (Inl y, s2) \<Rightarrow> Some (Inl y, s2)
          | (Inr u, s2) \<Rightarrow>
             if is_OSError x \<or> is_TimeoutError x \<or> is_Error x
             then start env (Suc k) s2
             else Some (Inl x, s2)))"

declare start.simps [code]

text \<open>
  Calling an \<^verbatim>\<open>async def\<close> only builds a coroutine object: its body runs when the
  object is awaited.
\<close>

datatype 'a coroutine = Coroutine "session \<Rightarrow> 'a"

fun await :: "'a coroutine \<Rightarrow> session \<Rightarrow> 'a" where
  "await (Coroutine run) s = run s"

text \<open>
  \<^verbatim>\<open>Session.restart\<close>: \<^verbatim>\<open>self.stop()\<close> and \<^verbatim>\<open>self.start()\<close> are called and their
  coroutine objects dropped, neither being awaited.
\<close>

definition restart :: "(nat \<Rightarrow> pass_env) \<Rightarrow> session \<Rightarrow> (exn + unit) \<times> session" where
  "restart env s =
     (let stopping = Coroutine stop;
          starting = Coroutine (start env 0)
      in (Inr (), s))"

text \<open>
  The restart of the spec, ``equivalent to \<^verbatim>\<open>stop(); start()\<close>'': the two run to
  completion, in that order.
\<close>

definition restart_spec ::
  "(nat \<Rightarrow> pass_env) \<Rightarrow> session \<Rightarrow> ((exn + unit) \<times> session) option" where
  "restart_spec env s =
     (case await (Coroutine stop) s of
        (Inl x, s1) \<Rightarrow> Some (Inl x, s1)
      | (Inr u, s1) \<Rightarrow> await (Coroutine (start env 0)) s1)"

subsection \<open>The public send\<close>

text \<open>
  What the other tasks do at the three suspension points of one attempt of \<^verbatim>\<open>send\<close>:
  the wait on \<open>is_connected\<close>, the wait for the response inside \<^verbatim>\<open>_send\<close>, and the
  sleep before the retry.
\<close>

record send_env =
  on_connect_wait :: "session \<Rightarrow> session"
  on_reply_wait :: "session \<Rightarrow> session"
  on_sleep :: "session \<Rightarrow> session"

text \<open>
  What \<^verbatim>\<open>send\<close> does, in order: a wait on \<open>is_connected\<close> (with whether it was set when
  the wait ended), a call of \<^verbatim>\<open>_send\<close>, a sleep (in milliseconds).
\<close>

datatype action = WaitConnected bool | CallSend | Sleep nat

text \<open>
  \<^verbatim>\<open>wait_for(self.is_connected.wait(), WAIT_TIMEOUT)\<close> with its timeout swallowed: a set
  latch returns at once, otherwise the other tasks run until it is set or the time is
  up.
\<close>

definition wait_connected :: "(session \<Rightarrow> session) \<Rightarrow> session \<Rightarrow> session" where
  "wait_connected during s = (if is_connected s then s else during s)"

text \<open>
  \<^verbatim>\<open>Session.send\<close>; attempt \<open>k\<close> meets \<open>env k\<close>. The result carries the actions taken.
  The recursion need not end for a negative \<open>retries\<close>: \<open>None\<close>.
\<close>

partial_function (option) send ::
  "(nat \<Rightarrow> send_env) \<Rightarrow> nat \<Rightarrow> session \<Rightarrow> tl \<Rightarrow> int \<Rightarrow>
   ((exn + tl option) \<times> session \<times> action list) option" where
  "send env k s data retries =
     (let s0 = wait_connected (on_connect_wait (env k)) s;
          first = [WaitConnected (is_connected s0), CallSend]
      in case priv_send (on_reply_wait (env k)) s0 data True of
           (Inr r, s1) \<Rightarrow> Some (Inr r, s1, first)
         | (Inl e, s1) \<Rightarrow>
            if is_OSError e \<or> is_TimeoutError e \<or> is_InternalServerError e
            then if retries = 0 then Some (Inl e, s1, first)
                 else Option.bind
                        (send env (Suc k) (on_sleep (env k) s1) data (retries - 1))
                        (\<lambda>out. Some (fst out, fst (snd out), first @ Sleep 500 # snd (snd out)))
            else Some (Inl e, s1, first))"

declare send.simps [code]

subsection \<open>Concrete sessions\<close>

text \<open>
  A transport with nothing written and no fault to come, a client without a handler, a
  session as \<^verbatim>\<open>__init__\<close> leaves it, and the same session once connected.
\<close>

definition conn0 :: connection where
  "conn0 = \<lparr>closed = False, outbox = [], faults = []\<rparr>"

definition client0 :: client where
  "client0 = \<lparr>updates_queue = [], disconnect_handler = None, disconnects = 0\<rparr>"

definition fresh :: session where
  "fresh = init 2 False [1, 2, 3] 12345 False (Some client0) [7, 7] 1000 4000 105
             ''CPython 3.7'' ''Linux 5'' ''Pyrogram''"

definition online :: session where
  "online = fresh\<lparr>connection := Some conn0, current_salt := Some (FutureSalt 0 3600 11),
                   net_worker_task := Some Running, recv_task := Some Running,
                   ping_task := Some Running, next_salt_task := Some Running,
                   is_connected := True\<rparr>"

text \<open>
  A caller waits on the slot of request 4000; the server answers that request with a
  \<open>bad_server_salt\<close> carrying the new salt 99.
\<close>

definition waiting :: session where
  "waiting = online\<lparr>msg_factory := \<lparr>seq_counter = 1, last_msg_id = 4000, clock_id = 4002\<rparr>,
                     results := [4000 \<mapsto> Result]\<rparr>"

definition bad_salt_packet :: packet where
  "bad_salt_packet = Packet [7, 7] 1000 0 True (Message 4001 1 (BadServerSalt 4000 99))"

text \<open>
  A container of eight content-related messages, and a later packet that repeats the
  first of them.
\<close>

definition first_packet :: packet where
  "first_packet = Packet [7, 7] 1000 0 True (Message 4001 0 (MsgContainer
     [Message 1 1 (Other ''update_a''), Message 3 3 (Other ''update_b''),
      Message 5 5 (Other ''update_b''), Message 7 7 (Other ''update_b''),
      Message 9 9 (Other ''update_b''), Message 11 11 (Other ''update_b''),
      Message 13 13 (Other ''update_b''), Message 15 15 (Other ''update_b'')]))"

definition repeat_packet :: packet where
  "repeat_packet = Packet [7, 7] 1000 0 True (Message 1 1 (Other ''update_a''))"

text \<open>
  A session with eight acknowledgements pending, and the same session on a transport
  whose next write fails.
\<close>

definition acks_due :: session where
  "acks_due = online\<lparr>pending_acks := {|1, 3, 5, 7, 9, 11, 13, 15|}\<rparr>"

definition acks_due_faulty :: session where
  "acks_due_faulty = acks_due\<lparr>connection := Some (conn0\<lparr>faults := [Some OSError]\<rparr>)\<rparr>"

text \<open>A session in which request 4000 was answered by a bad-message notification of code 99.\<close>

definition notified :: session where
  "notified = online\<lparr>results := [4000 \<mapsto> \<lparr>value = Some (BadMsgNotification 4000 99), event = True\<rparr>]\<rparr>"

text \<open>
  A connected session whose transport fails the next two writes, the packet that answers
  request 4008 with a config, and the outside of every attempt of \<^verbatim>\<open>send\<close>: that
  packet arrives during the wait for the response.
\<close>

definition flaky :: session where
  "flaky = online\<lparr>connection := Some (conn0\<lparr>faults := [Some OSError, Some OSError]\<rparr>)\<rparr>"

definition config_reply :: packet where
  "config_reply = Packet [7, 7] 1000 0 True (Message 4009 1 (RpcResult 4008 (Other ''Config'')))"

definition scripted :: "nat \<Rightarrow> send_env" where
  "scripted k = \<lparr>on_connect_wait = id, on_reply_wait = deliver [config_reply], on_sleep = id\<rparr>"

text \<open>A stopped session: not connected, on a closed transport whose writes all fail.\<close>

definition offline :: session where
  "offline = online\<lparr>is_connected := False,
       connection := Some (conn0\<lparr>closed := True, faults := replicate 6 (Some OSError)\<rparr>)\<rparr>"

text \<open>
  The handshake of a scripted transport, for a first request numbered \<open>i\<close>: the ping is
  answered by a pong carrying the new server salt \<^verbatim>\<open>0x1122334455667788\<close>, the request
  for future salts by one salt valid for an hour, the announcement of the layer by a
  config. \<open>smooth\<close> answers the first pass so; \<open>bumpy\<close> gives the first pass a
  transport whose first write fails and answers the second pass.
\<close>

definition pong_reply :: "int \<Rightarrow> packet" where
  "pong_reply i = Packet [7, 7] 1000 0 True (Message (i + 1) 1 (Pong i 0x1122334455667788))"

definition salts_reply :: "int \<Rightarrow> packet" where
  "salts_reply i =
     Packet [7, 7] 1000 0 True (Message (i + 1) 3 (FutureSalts i [FutureSalt 0 3600 42]))"

definition init_reply :: "int \<Rightarrow> packet" where
  "init_reply i = Packet [7, 7] 1000 0 True (Message (i + 1) 5 (RpcResult i (Other ''Config'')))"

definition handshake :: "int \<Rightarrow> pass_env" where
  "handshake i = \<lparr>fresh_connection = conn0, connect_fault = None,
      on_ping = deliver [pong_reply i], on_salts = deliver [salts_reply (i + 4)],
      on_init = deliver [init_reply (i + 8)]\<rparr>"



text \<open>The handshake that answers a start of the waiting session, whose next request is 4004.\<close>

definition again :: "nat \<Rightarrow> pass_env" where
  "again k = handshake 4004"

text \<open>
  The packet that answers request 4000 with a config, and the waiting session with that
  packet still in the queue. During every wait for a response of \<open>stopping\<close> the
  session is stopped. During the first wait of \<open>reconnecting\<close> the session gets a new
  transport and \<open>is_connected\<close> is set, and the answer to request 4000 arrives during
  the wait for the response. \<open>unreachable\<close> is a handshake whose \<^verbatim>\<open>connect\<close> fails.
\<close>

definition config_answer :: packet where
  "config_answer = Packet [7, 7] 1000 0 True (Message 4001 1 (RpcResult 4000 (Other ''Config'')))"

definition answered :: session where
  "answered = waiting\<lparr>recv_queue := [Some config_answer]\<rparr>"

definition stopping :: "nat \<Rightarrow> send_env" where
  "stopping k = \<lparr>on_connect_wait = id, on_reply_wait = snd \<circ> stop, on_sleep = id\<rparr>"

definition connects :: "session \<Rightarrow> session" where
  "connects s = s\<lparr>connection := Some conn0, is_connected := True\<rparr>"

definition reconnecting :: "nat \<Rightarrow> send_env" where
  "reconnecting k =
     \<lparr>on_connect_wait = connects, on_reply_wait = deliver [config_answer], on_sleep = id\<rparr>"


section \<open>What the worker leaves alone\<close>

lemma current_salt_nowait:
  "current_salt (snd (priv_send d s data False)) = current_salt s"
  by (simp add: priv_send_def Let_def split: prod.splits option.splits)

lemma current_salt_dispatch: "current_salt (dispatch b s) = current_salt s"
  by (cases b) (auto simp: dispatch_def resolve_def split: option.splits)

lemma current_salt_process_msg: "current_salt (process_msg m s) = current_salt s"
  by (simp add: process_msg_def Let_def current_salt_dispatch split: tl.splits)

lemma current_salt_fold: "current_salt (fold process_msg ms s) = current_salt s"
  by (induction ms arbitrary: s) (simp_all add: current_salt_process_msg)

lemma current_salt_flush: "current_salt (snd (flush_acks s)) = current_salt s"
proof -
  have "current_salt (snd (priv_send id s (MsgsAck (pending_acks s)) False)) = current_salt s"
    by (rule current_salt_nowait)
  then show ?thesis
    by (auto simp: flush_acks_def split: prod.splits sum.splits)
qed

lemma current_salt_process_packet: "current_salt (process_packet p s) = current_salt s"
  by (simp add: process_packet_def Let_def current_salt_flush current_salt_fold
           split: option.splits sum.splits)













lemmas example_defs = online_def fresh_def init_def conn0_def client0_def Result_def

lemmas worker_defs = process_packet_def unpack_def process_msg_def dispatch_def resolve_def
  flush_acks_def ACKS_THRESHOLD_def Let_def fcard_finsert_if fcard_fempty

section \<open>Dispatch of one message body\<close>

lemma dispatch_no_slot:
  assumes "results s i = None"
  shows "dispatch (BadMsgNotification i c) s = s" and "dispatch (BadServerSalt i n) s = s"
    and "dispatch (FutureSalts i ss) s = s" and "dispatch (RpcResult i r) s = s"
    and "dispatch (Pong i n) s = s"
  using assms by (simp_all add: dispatch_def resolve_def)

lemma dispatch_slot:
  assumes "results s i = Some slot"
  shows "dispatch (BadMsgNotification i c) s
           = s\<lparr>results := (results s)(i \<mapsto> slot\<lparr>value := Some (BadMsgNotification i c), event := True\<rparr>)\<rparr>"
    and "dispatch (BadServerSalt i n) s
           = s\<lparr>results := (results s)(i \<mapsto> slot\<lparr>value := Some (BadServerSalt i n), event := True\<rparr>)\<rparr>"
    and "dispatch (FutureSalts i ss) s
           = s\<lparr>results := (results s)(i \<mapsto> slot\<lparr>value := Some (FutureSalts i ss), event := True\<rparr>)\<rparr>"
    and "dispatch (Pong i n) s
           = s\<lparr>results := (results s)(i \<mapsto> slot\<lparr>value := Some (Pong i n), event := True\<rparr>)\<rparr>"
    and "dispatch (RpcResult i r) s
           = s\<lparr>results := (results s)(i \<mapsto> slot\<lparr>value := Some r, event := True\<rparr>)\<rparr>"
  using assms by (simp_all add: dispatch_def resolve_def)

lemma dispatch_other:
  assumes "\<forall>j x. b \<noteq> BadMsgNotification j x" and "\<forall>j x. b \<noteq> BadServerSalt j x"
    and "\<forall>j x. b \<noteq> FutureSalts j x" and "\<forall>j x. b \<noteq> RpcResult j x" and "\<forall>j x. b \<noteq> Pong j x"
  shows "dispatch b s =
        (case client s of
           None \<Rightarrow> s
         | Some cl \<Rightarrow> s\<lparr>client := Some (cl\<lparr>updates_queue := updates_queue cl @ [b]\<rparr>)\<rparr>)"
  using assms by (cases b) (auto simp: dispatch_def resolve_def)

text \<open>
  C8. The request that a dispatched body resolves is fixed by its type: \<open>bad_msg_id\<close> for
  a bad-message notification or a bad server salt, \<open>req_msg_id\<close> for future salts or an
  rpc result, \<open>msg_id\<close> for a pong. If that request has no slot in \<open>results\<close> the session
  is left as it was, without an error; if it has one, the slot receives the \<open>result\<close> of
  an rpc result, or else the body itself, and its event is set. A body of any other type
  resolves nothing and goes to the updates queue of the client, when there is a client.
\<close>

theorem dispatch_by_body_type:
  "(results s i = None \<longrightarrow>
      dispatch (BadMsgNotification i c) s = s \<and> dispatch (BadServerSalt i n) s = s \<and>
      dispatch (FutureSalts i ss) s = s \<and> dispatch (RpcResult i r) s = s \<and>
      dispatch (Pong i n) s = s) \<and>
   (results s i = Some slot \<longrightarrow>
      (\<forall>b \<in> {BadMsgNotification i c, BadServerSalt i n, FutureSalts i ss, Pong i n}.
         dispatch b s = s\<lparr>results := (results s)(i \<mapsto> slot\<lparr>value := Some b, event := True\<rparr>)\<rparr>) \<and>
      dispatch (RpcResult i r) s
        = s\<lparr>results := (results s)(i \<mapsto> slot\<lparr>value := Some r, event := True\<rparr>)\<rparr>) \<and>
   ((\<forall>j x. b \<noteq> BadMsgNotification j x) \<and> (\<forall>j x. b \<noteq> BadServerSalt j x) \<and>
    (\<forall>j x. b \<noteq> FutureSalts j x) \<and> (\<forall>j x. b \<noteq> RpcResult j x) \<and> (\<forall>j x. b \<noteq> Pong j x) \<longrightarrow>
      dispatch b s =
        (case client s of
           None \<Rightarrow> s
         | Some cl \<Rightarrow> s\<lparr>client := Some (cl\<lparr>updates_queue := updates_queue cl @ [b]\<rparr>)\<rparr>))"
proof (intro conjI)
  show "results s i = None \<longrightarrow>
      dispatch (BadMsgNotification i c) s = s \<and> dispatch (BadServerSalt i n) s = s \<and>
      dispatch (FutureSalts i ss) s = s \<and> dispatch (RpcResult i r) s = s \<and>
      dispatch (Pong i n) s = s"
    by (simp add: dispatch_no_slot)
  show "results s i = Some slot \<longrightarrow>
      (\<forall>b \<in> {BadMsgNotification i c, BadServerSalt i n, FutureSalts i ss, Pong i n}.
         dispatch b s = s\<lparr>results := (results s)(i \<mapsto> slot\<lparr>value := Some b, event := True\<rparr>)\<rparr>) \<and>
      dispatch (RpcResult i r) s
        = s\<lparr>results := (results s)(i \<mapsto> slot\<lparr>value := Some r, event := True\<rparr>)\<rparr>"
    by (simp add: dispatch_slot)
  show "(\<forall>j x. b \<noteq> BadMsgNotification j x) \<and> (\<forall>j x. b \<noteq> BadServerSalt j x) \<and>
    (\<forall>j x. b \<noteq> FutureSalts j x) \<and> (\<forall>j x. b \<noteq> RpcResult j x) \<and> (\<forall>j x. b \<noteq> Pong j x) \<longrightarrow>
      dispatch b s =
        (case client s of
           None \<Rightarrow> s
         | Some cl \<Rightarrow> s\<lparr>client := Some (cl\<lparr>updates_queue := updates_queue cl @ [b]\<rparr>)\<rparr>)"
    using dispatch_other [of b s] by blast
qed

text \<open>
  Witness of C8 on the waiting session: an rpc result for request 4000 fills its slot with
  the carried result, a late pong for request 4004, which has no slot, changes nothing,
  and an update reaches the queue of the client.
\<close>

theorem dispatch_by_body_type_witness:
  "results waiting 4004 = None \<and> results waiting 4000 = Some Result \<and>
   dispatch (Pong 4004 0) waiting = waiting \<and>
   results (dispatch (RpcResult 4000 (Other ''Config'')) waiting) 4000
     = Some \<lparr>value = Some (Other ''Config''), event = True\<rparr> \<and>
   map_option updates_queue (client (dispatch (Other ''update_a'') waiting))
     = Some [Other ''update_a'']"
  using dispatch_by_body_type [of waiting 4004 0 0 "[]" "Other ''Config''" Result "Other ''update_a''"]
    dispatch_by_body_type [of waiting 4000 0 0 "[]" "Other ''Config''" Result "Other ''update_a''"]
  by (simp add: waiting_def example_defs)

section \<open>A bad server salt\<close>

lemma bad_server_salt_resolves:
  assumes "results s i = Some slot" and "\<not> (q mod 2 \<noteq> 0 \<and> m |\<in>| pending_acks s)"
  shows "results (process_msg (Message m q (BadServerSalt i n)) s) i
        = Some (slot\<lparr>value := Some (BadServerSalt i n), event := True\<rparr>)"
  using assms by (auto simp: process_msg_def dispatch_def resolve_def Let_def)

text \<open>
  C3, as stated, fails: the worker takes the packet that answers request 4000 with
  \<open>bad_server_salt\<close> and the new salt 99, and \<open>current_salt\<close> is still the salt 11 of
  before; the slot of the request holds the \<open>bad_server_salt\<close> body, its event set.
\<close>

theorem bad_server_salt_keeps_current_salt:
  "current_salt (process_packet bad_salt_packet waiting) = Some (FutureSalt 0 3600 11) \<and>
   map_option salt (current_salt (process_packet bad_salt_packet waiting)) \<noteq> Some 99 \<and>
   results (process_packet bad_salt_packet waiting) 4000
     = Some \<lparr>value = Some (BadServerSalt 4000 99), event = True\<rparr>"
  by (simp add: waiting_def bad_salt_packet_def example_defs worker_defs)

text \<open>
  C3, amended. The worker never assigns \<open>current_salt\<close>: a packet, and in it a
  \<open>bad_server_salt\<close> message, leaves it as it was. When the \<open>bad_msg_id\<close> of the message
  has a slot (and the message is not skipped as a duplicate), the worker stores the
  \<open>bad_server_salt\<close> body, which carries the new salt, into the slot and sets its event;
  \<^verbatim>\<open>_send\<close> then returns that body to the caller as an ordinary value.
\<close>

theorem bad_server_salt_is_handed_to_caller:
  "current_salt (process_packet p s) = current_salt s \<and>
   current_salt (process_msg (Message m q (BadServerSalt i n)) s) = current_salt s \<and>
   (results s i = Some slot \<and> \<not> (q mod 2 \<noteq> 0 \<and> m |\<in>| pending_acks s) \<longrightarrow>
      results (process_msg (Message m q (BadServerSalt i n)) s) i
        = Some (slot\<lparr>value := Some (BadServerSalt i n), event := True\<rparr>)) \<and>
   raise_or_return (Some (BadServerSalt i n)) data = Inr (Some (BadServerSalt i n))"
  using bad_server_salt_resolves [of s i slot q m n]
  by (simp add: current_salt_process_packet current_salt_process_msg)

text \<open>Witness of the amended C3 on the waiting session and the message of the packet.\<close>

theorem bad_server_salt_is_handed_to_caller_witness:
  "results waiting 4000 = Some Result \<and> \<not> ((1::int) mod 2 \<noteq> 0 \<and> 4001 |\<in>| pending_acks waiting) \<and>
   current_salt (process_packet bad_salt_packet waiting) = current_salt waiting \<and>
   results (process_msg (Message 4001 1 (BadServerSalt 4000 99)) waiting) 4000
     = Some \<lparr>value = Some (BadServerSalt 4000 99), event = True\<rparr> \<and>
   raise_or_return (Some (BadServerSalt 4000 99)) (Ping 0) = Inr (Some (BadServerSalt 4000 99))"
  using bad_server_salt_is_handed_to_caller
          [of bad_salt_packet waiting 4001 1 4000 99 Result "Ping 0"]
  by (simp add: waiting_def example_defs)

section \<open>Duplicates\<close>

lemma pending_acks_dispatch: "pending_acks (dispatch b s) = pending_acks s"
  by (cases b) (auto simp: dispatch_def resolve_def split: option.splits)

lemma pending_acks_grow:
  "i |\<in>| pending_acks s \<Longrightarrow> i |\<in>| pending_acks (process_msg m s)"
  by (simp add: process_msg_def Let_def pending_acks_dispatch split: tl.splits)

lemma pending_acks_grow_fold:
  "i |\<in>| pending_acks s \<Longrightarrow> i |\<in>| pending_acks (fold process_msg ms s)"
  by (induction ms arbitrary: s) (simp_all add: pending_acks_grow)

lemma pending_acks_odd:
  "seq_no m mod 2 \<noteq> 0 \<Longrightarrow> msg_id m |\<in>| pending_acks (process_msg m s)"
  by (simp add: process_msg_def Let_def pending_acks_dispatch split: tl.splits)

lemma duplicate_skipped:
  "seq_no m mod 2 \<noteq> 0 \<Longrightarrow> msg_id m |\<in>| pending_acks s \<Longrightarrow> process_msg m s = s"
  by (simp add: process_msg_def)

text \<open>
  C4, as stated for every sequence of inbound messages, fails. The first packet brings
  eight content-related messages; the flush acknowledges them and empties
  \<open>pending_acks\<close>. The second packet repeats the first message (identifier 1): it is
  put into the updates queue a second time and its identifier is pending again, to be
  acknowledged a second time.
\<close>

theorem duplicate_after_flush_dispatched_twice:
  "map_option updates_queue
     (client (net_worker (online\<lparr>recv_queue := [Some first_packet, Some repeat_packet]\<rparr>)))
     = Some [Other ''update_a'', Other ''update_b'', Other ''update_b'', Other ''update_b'',
             Other ''update_b'', Other ''update_b'', Other ''update_b'', Other ''update_b'',
             Other ''update_a''] \<and>
   pending_acks (net_worker (online\<lparr>recv_queue := [Some first_packet, Some repeat_packet]\<rparr>))
     = {|1|}"
  by (simp add: net_worker_def first_packet_def repeat_packet_def example_defs worker_defs
        priv_send_def MsgFactory_def MsgId_def pack_def conn_send_def)

text \<open>
  C4, amended. A message with an odd \<open>seq_no\<close> whose \<open>msg_id\<close> is in \<open>pending_acks\<close> is
  skipped whole: the session is unchanged, so nothing is acknowledged, routed or
  resolved for it. Hence, within the messages of one packet, a second copy of a
  content-related message changes nothing. (The set is emptied by a flush, and a message
  with an even \<open>seq_no\<close> is not recorded in it: such repeats are processed again.)
\<close>

theorem pending_duplicate_is_skipped:
  "(seq_no m mod 2 \<noteq> 0 \<and> msg_id m |\<in>| pending_acks s \<longrightarrow> process_msg m s = s) \<and>
   (seq_no m mod 2 \<noteq> 0 \<longrightarrow>
      process_msg m (fold process_msg ms (process_msg m s)) = fold process_msg ms (process_msg m s))"
  using duplicate_skipped [of m s]
    duplicate_skipped [of m "fold process_msg ms (process_msg m s)"]
    pending_acks_grow_fold [of "msg_id m" "process_msg m s" ms] pending_acks_odd [of m s]
  by blast

text \<open>
  Witness of the amended C4: an rpc result for request 4000 arrives twice in one packet,
  with an update between the copies; the second copy changes nothing.
\<close>

theorem pending_duplicate_is_skipped_witness:
  "seq_no (Message 4001 1 (RpcResult 4000 (Other ''Config''))) mod 2 \<noteq> 0 \<and>
   process_msg (Message 4001 1 (RpcResult 4000 (Other ''Config'')))
     (fold process_msg [Message 4003 3 (Other ''update_a'')]
        (process_msg (Message 4001 1 (RpcResult 4000 (Other ''Config''))) waiting))
   = fold process_msg [Message 4003 3 (Other ''update_a'')]
        (process_msg (Message 4001 1 (RpcResult 4000 (Other ''Config''))) waiting)"
  using pending_duplicate_is_skipped
          [of "Message 4001 1 (RpcResult 4000 (Other ''Config''))" waiting
              "[Message 4003 3 (Other ''update_a'')]"]
  by simp

section \<open>The flush of the acknowledgements\<close>

lemma flush_below: "fcard (pending_acks s) < ACKS_THRESHOLD \<Longrightarrow> flush_acks s = (Inr (), s)"
  by (simp add: flush_acks_def)

lemma nowait_written:
  assumes "current_salt s = Some cs" and "connection s = Some c"
    and "MsgFactory (msg_factory s) data = (message, f)"
    and "payload = pack message (salt cs) (session_id s) (auth_key s) (auth_key_id s)"
    and "conn_send c payload = (None, c')"
  shows "priv_send d s data False = (Inr None, s\<lparr>msg_factory := f, connection := Some c'\<rparr>)"
  using assms by (simp add: priv_send_def)

lemma nowait_failed:
  assumes "current_salt s = Some cs" and "connection s = Some c"
    and "MsgFactory (msg_factory s) data = (message, f)"
    and "payload = pack message (salt cs) (session_id s) (auth_key s) (auth_key_id s)"
    and "conn_send c payload = (Some e, c')" and "is_OSError e"
  shows "priv_send d s data False
           = (Inl e, s\<lparr>msg_factory := f, connection := Some c',
                        results := (results s)(msg_id message := None)\<rparr>)"
  using assms by (simp add: priv_send_def)

lemma conn_send_outbox:
  "conn_send c p = (None, c') \<Longrightarrow> outbox c' = outbox c @ [p]"
  "conn_send c p = (Some e, c') \<Longrightarrow> outbox c' = outbox c"
  by (auto simp: conn_send_def split: list.splits option.splits)

lemma MsgFactory_body: "MsgFactory f data = (message, f') \<Longrightarrow> body message = data"
  by (auto simp: MsgFactory_def Let_def split: if_splits)

text \<open>
  C5. After the messages of a packet, with fewer than \<open>ACKS_THRESHOLD\<close> = 8 identifiers
  pending nothing is sent. With 8 or more, one \<open>msgs_ack\<close> is built whose body is the
  whole pending set and written without waiting for a response (no slot is made). If
  the write succeeds, that one packet is added to what the transport has sent and
  \<open>pending_acks\<close> is emptied; if it raises \<open>OSError\<close> (or its subclass \<open>TimeoutError\<close>),
  nothing is added, the exception is passed over and \<open>pending_acks\<close> is as before.
\<close>

theorem flush_acks_at_threshold:
  assumes "current_salt s = Some cs" and "connection s = Some c"
    and "MsgFactory (msg_factory s) (MsgsAck (pending_acks s)) = (message, f)"
    and "payload = pack message (salt cs) (session_id s) (auth_key s) (auth_key_id s)"
  shows "(fcard (pending_acks s) < ACKS_THRESHOLD \<longrightarrow> flush_acks s = (Inr (), s)) \<and>
    (ACKS_THRESHOLD \<le> fcard (pending_acks s) \<and> conn_send c payload = (None, c') \<longrightarrow>
       flush_acks s = (Inr (), s\<lparr>msg_factory := f, connection := Some c', pending_acks := {||}\<rparr>)
       \<and> outbox c' = outbox c @ [payload] \<and> body (pk_message payload) = MsgsAck (pending_acks s)) \<and>
    (ACKS_THRESHOLD \<le> fcard (pending_acks s) \<and> conn_send c payload = (Some e, c') \<and> is_OSError e \<longrightarrow>
       flush_acks s = (Inr (), s\<lparr>msg_factory := f, connection := Some c',
                                  results := (results s)(msg_id message := None)\<rparr>)
       \<and> outbox c' = outbox c)"
proof (intro conjI impI)
  show "flush_acks s = (Inr (), s)" if "fcard (pending_acks s) < ACKS_THRESHOLD"
    using that by (rule flush_below)
next
  assume a: "ACKS_THRESHOLD \<le> fcard (pending_acks s) \<and> conn_send c payload = (None, c')"
  then have "priv_send id s (MsgsAck (pending_acks s)) False
               = (Inr None, s\<lparr>msg_factory := f, connection := Some c'\<rparr>)"
    using assms nowait_written by blast
  with a show "flush_acks s
      = (Inr (), s\<lparr>msg_factory := f, connection := Some c', pending_acks := {||}\<rparr>)"
    by (simp add: flush_acks_def)
  from a show "outbox c' = outbox c @ [payload]"
    by (simp add: conn_send_outbox)
  from assms show "body (pk_message payload) = MsgsAck (pending_acks s)"
    by (simp add: pack_def MsgFactory_body)
next
  assume a: "ACKS_THRESHOLD \<le> fcard (pending_acks s) \<and> conn_send c payload = (Some e, c')
             \<and> is_OSError e"
  then have "priv_send id s (MsgsAck (pending_acks s)) False
               = (Inl e, s\<lparr>msg_factory := f, connection := Some c',
                            results := (results s)(msg_id message := None)\<rparr>)"
    using assms nowait_failed by blast
  with a show "flush_acks s = (Inr (), s\<lparr>msg_factory := f, connection := Some c',
                                  results := (results s)(msg_id message := None)\<rparr>)"
    by (simp add: flush_acks_def)
  from a show "outbox c' = outbox c"
    using conn_send_outbox(2) by blast
qed

text \<open>
  Witness of C5: with eight identifiers pending and a working transport the one
  \<open>msgs_ack\<close> is written and the set emptied; on a transport whose write raises
  \<open>OSError\<close> nothing is written and the set is kept.
\<close>

theorem flush_acks_at_threshold_witness:
  "ACKS_THRESHOLD \<le> fcard (pending_acks acks_due) \<and>
   fst (flush_acks acks_due) = Inr () \<and>
   pending_acks (snd (flush_acks acks_due)) = {||} \<and>
   map_option outbox (connection (snd (flush_acks acks_due)))
     = Some [Packet [7, 7] 1000 11 True (Message 4000 0 (MsgsAck {|1, 3, 5, 7, 9, 11, 13, 15|}))] \<and>
   fst (flush_acks acks_due_faulty) = Inr () \<and>
   pending_acks (snd (flush_acks acks_due_faulty)) = {|1, 3, 5, 7, 9, 11, 13, 15|} \<and>
   map_option outbox (connection (snd (flush_acks acks_due_faulty))) = Some []"
proof -
  let ?m = "Message 4000 0 (MsgsAck {|1, 3, 5, 7, 9, 11, 13, 15|})"
  let ?f = "\<lparr>seq_counter = 0, last_msg_id = 4000, clock_id = 4000\<rparr>"
  let ?p = "Packet [7, 7] 1000 11 True ?m"
  have due: "ACKS_THRESHOLD \<le> fcard (pending_acks acks_due)"
    "ACKS_THRESHOLD \<le> fcard (pending_acks acks_due_faulty)"
    by (simp_all add: acks_due_faulty_def acks_due_def ACKS_THRESHOLD_def fcard_finsert_if
          fcard_fempty)
  have salt: "current_salt acks_due = Some (FutureSalt 0 3600 11)"
    "current_salt acks_due_faulty = Some (FutureSalt 0 3600 11)"
    by (simp_all add: acks_due_faulty_def acks_due_def example_defs)
  have conn: "connection acks_due = Some conn0"
    "connection acks_due_faulty = Some (conn0\<lparr>faults := [Some OSError]\<rparr>)"
    by (simp_all add: acks_due_faulty_def acks_due_def example_defs)
  have made: "MsgFactory (msg_factory acks_due) (MsgsAck (pending_acks acks_due)) = (?m, ?f)"
    "MsgFactory (msg_factory acks_due_faulty) (MsgsAck (pending_acks acks_due_faulty)) = (?m, ?f)"
    by (simp_all add: acks_due_faulty_def acks_due_def example_defs MsgFactory_def MsgId_def)
  have packed: "?p = pack ?m (salt (FutureSalt 0 3600 11)) (session_id acks_due)
                       (auth_key acks_due) (auth_key_id acks_due)"
    "?p = pack ?m (salt (FutureSalt 0 3600 11)) (session_id acks_due_faulty)
                       (auth_key acks_due_faulty) (auth_key_id acks_due_faulty)"
    by (simp_all add: acks_due_faulty_def acks_due_def example_defs pack_def)
  have ok: "conn_send conn0 ?p = (None, conn0\<lparr>outbox := [?p]\<rparr>)"
    by (simp add: conn_send_def conn0_def)
  have bad: "conn_send (conn0\<lparr>faults := [Some OSError]\<rparr>) ?p = (Some OSError, conn0)"
    by (simp add: conn_send_def conn0_def)
  note good = flush_acks_at_threshold [OF salt(1) conn(1) made(1) packed(1),
      of "conn0\<lparr>outbox := [?p]\<rparr>" OSError]
  note fail = flush_acks_at_threshold [OF salt(2) conn(2) made(2) packed(2), of conn0 OSError]
  from good due(1) ok have g: "flush_acks acks_due
      = (Inr (), acks_due\<lparr>msg_factory := ?f, connection := Some (conn0\<lparr>outbox := [?p]\<rparr>),
                           pending_acks := {||}\<rparr>)"
    by blast
  from fail due(2) bad have b: "flush_acks acks_due_faulty
      = (Inr (), acks_due_faulty\<lparr>msg_factory := ?f, connection := Some conn0,
            results := (results acks_due_faulty)(msg_id ?m := None)\<rparr>)"
    by simp
  show ?thesis
    using due(1) by (simp add: g b) (simp add: acks_due_faulty_def acks_due_def conn0_def)
qed

section \<open>What a released call of \<^verbatim>\<open>_send\<close> makes of its slot\<close>

lemma await_result_pops:
  "results (during s) i = Some r \<Longrightarrow>
     await_result during s i data
       = (raise_or_return (value r) data, (during s)\<lparr>results := (results (during s))(i := None)\<rparr>)"
  by (simp add: await_result_def Let_def)

lemma known_code:
  "map_of BAD_MSG_DESCRIPTION code = Some descr \<Longrightarrow>
     raise_or_return (Some (BadMsgNotification j code)) data = Inl (Exception descr)"
  by (simp add: bad_msg_text_def)

lemma unknown_code:
  "code \<notin> {16, 17, 18, 19, 20, 32, 33, 34, 35, 48, 64} \<Longrightarrow>
     raise_or_return (Some (BadMsgNotification j code)) data
       = Inl (Exception (''Error code '' @ str_int code))"
  by (simp add: bad_msg_text_def BAD_MSG_DESCRIPTION_def)

lemma other_value:
  "(\<forall>c m. v \<noteq> RpcError c m) \<Longrightarrow> (\<forall>c m. v \<noteq> BadMsgNotification c m) \<Longrightarrow>
     raise_or_return (Some v) data = Inr (Some v)"
  by (cases v) auto

text \<open>
  C7. When the wait of \<^verbatim>\<open>_send\<close> ends, the slot is popped and its value alone decides:
  \<open>None\<close> raises \<open>TimeoutError\<close>; an \<open>rpc_error\<close> raises the mapped error, tagged with
  the type of the request; a \<open>bad_msg_notification\<close> raises an exception whose text is
  the entry of \<open>BAD_MSG_DESCRIPTION\<close> for its code and, for a code outside the table,
  \<open>Error code N\<close> with \<open>N\<close> the code in decimal; any other value is returned.
\<close>

theorem slot_value_decides_outcome:
  "(results (during s) i = Some r \<longrightarrow>
      await_result during s i data
        = (raise_or_return (value r) data, (during s)\<lparr>results := (results (during s))(i := None)\<rparr>)) \<and>
   raise_or_return None data = Inl TimeoutError \<and>
   raise_or_return (Some (RpcError code message)) data
     = Inl (raise_it code message (type_name data)) \<and>
   (map_of BAD_MSG_DESCRIPTION code = Some descr \<longrightarrow>
      raise_or_return (Some (BadMsgNotification j code)) data = Inl (Exception descr)) \<and>
   (code \<notin> {16, 17, 18, 19, 20, 32, 33, 34, 35, 48, 64} \<longrightarrow>
      raise_or_return (Some (BadMsgNotification j code)) data
        = Inl (Exception (''Error code '' @ str_int code))) \<and>
   ((\<forall>c m. v \<noteq> RpcError c m) \<and> (\<forall>c m. v \<noteq> BadMsgNotification c m) \<longrightarrow>
      raise_or_return (Some v) data = Inr (Some v))"
  using await_result_pops [of during s i r data] known_code [of code descr j data]
    unknown_code [of code j data] other_value [of v data]
  by (simp del: raise_or_return.simps(3) add: raise_or_return.simps(1,2))

text \<open>
  Witness of C7: the slot of request 4000 holds a notification of the unknown code 99;
  code 48 is in the table; an rpc error is tagged with the request type; a pong is
  returned.
\<close>

theorem slot_value_decides_outcome_witness:
  "results (id notified) 4000 = Some \<lparr>value = Some (BadMsgNotification 4000 99), event = True\<rparr> \<and>
   (99::int) \<notin> {16, 17, 18, 19, 20, 32, 33, 34, 35, 48, 64} \<and>
   map_of BAD_MSG_DESCRIPTION 48 = Some ''[48] incorrect server salt'' \<and>
   fst (await_result id notified 4000 (Ping 0)) = Inl (Exception ''Error code 99'') \<and>
   results (snd (await_result id notified 4000 (Ping 0))) 4000 = None \<and>
   raise_or_return (Some (BadMsgNotification 4000 48)) (Ping 0)
     = Inl (Exception ''[48] incorrect server salt'') \<and>
   raise_or_return (Some (RpcError 400 ''PEER_ID_INVALID'')) GetConfig
     = Inl (Error 400 ''PEER_ID_INVALID'' ''GetConfig'') \<and>
   raise_or_return (Some (Pong 4000 7)) (Ping 0) = Inr (Some (Pong 4000 7))"
proof -
  have slot: "results (id notified) 4000
                = Some \<lparr>value = Some (BadMsgNotification 4000 99), event = True\<rparr>"
    by (simp add: notified_def)
  have table: "map_of BAD_MSG_DESCRIPTION 48 = Some ''[48] incorrect server salt''"
    by (simp add: BAD_MSG_DESCRIPTION_def)
  have digits: "str_int 99 = ''99''"
    by (simp add: str_int_def digit_def)
  note a = slot_value_decides_outcome
      [of id notified 4000 "\<lparr>value = Some (BadMsgNotification 4000 99), event = True\<rparr>" "Ping 0"
          99 "[]" "[]" 4000 "Pong 4000 7"]
  note b = slot_value_decides_outcome
      [of id notified 4000 "\<lparr>value = Some (BadMsgNotification 4000 99), event = True\<rparr>" "Ping 0"
          48 "[]" "''[48] incorrect server salt''" 4000 "Pong 4000 7"]
  note c = slot_value_decides_outcome
      [of id notified 4000 "\<lparr>value = Some (BadMsgNotification 4000 99), event = True\<rparr>" GetConfig
          400 "''PEER_ID_INVALID''" "[]" 4000 "Pong 4000 7"]
  from a slot digits have 1: "fst (await_result id notified 4000 (Ping 0)) = Inl (Exception ''Error code 99'')"
    "results (snd (await_result id notified 4000 (Ping 0))) 4000 = None"
    "raise_or_return (Some (Pong 4000 7)) (Ping 0) = Inr (Some (Pong 4000 7))"
    by simp_all
  from b table have 2: "raise_or_return (Some (BadMsgNotification 4000 48)) (Ping 0)
     = Inl (Exception ''[48] incorrect server salt'')"
    by blast
  from c have 3: "raise_or_return (Some (RpcError 400 ''PEER_ID_INVALID'')) GetConfig
     = Inl (Error 400 ''PEER_ID_INVALID'' ''GetConfig'')"
    by (simp add: raise_it_def)
  show ?thesis
    using slot table 1 2 3 by simp
qed

section \<open>Stopping releases the callers\<close>

lemma MsgId_fresh: "last_msg_id f < MsgId f"
proof -
  let ?d = "clock_id f - clock_id f mod 4"
  have "last_msg_id f - ?d < 4 * ((last_msg_id f - ?d) div 4 + 1)"
    by (simp add: minus_mod_eq_mult_div [symmetric] algebra_simps) 
  then show ?thesis
    by (simp add: MsgId_def Let_def)
qed

lemma MsgFactory_id:
  "MsgFactory f data = (message, f') \<Longrightarrow> msg_id message = MsgId f \<and> last_msg_id f' = MsgId f"
  by (auto simp: MsgFactory_def Let_def split: if_splits)

lemma nowait_results:
  assumes "ids_issued s"
  shows "results (snd (priv_send d s data False)) = results s
         \<and> ids_issued (snd (priv_send d s data False))"
proof -
  obtain message f where mf: "MsgFactory (msg_factory s) data = (message, f)"
    by (cases "MsgFactory (msg_factory s) data")
  then have i: "msg_id message = MsgId (msg_factory s)" "last_msg_id f = MsgId (msg_factory s)"
    using MsgFactory_id by blast+
  have "results s (msg_id message) = None"
  proof (rule ccontr)
    assume "results s (msg_id message) \<noteq> None"
    then have "msg_id message \<in> dom (results s)" by auto
    with assms have "msg_id message \<le> last_msg_id (msg_factory s)"
      by (simp add: ids_issued_def)
    with MsgId_fresh [of "msg_factory s"] i(1) show False by simp
  qed
  then have same: "(results s)(msg_id message := None) = results s"
    by (simp add: fun_upd_idem)
  have issued: "\<forall>j \<in> dom (results s). j \<le> last_msg_id f"
  proof
    fix j assume "j \<in> dom (results s)"
    with assms have "j \<le> last_msg_id (msg_factory s)"
      by (simp add: ids_issued_def)
    with MsgId_fresh [of "msg_factory s"] i(2) show "j \<le> last_msg_id f" by simp
  qed
  show ?thesis
    using mf same issued
    by (auto simp: priv_send_def ids_issued_def Let_def split: option.splits prod.splits)
qed











lemma ids_issued_init:
  "ids_issued (init dc test key api cdn cl key_id sid clock lay device system app)"
  by (simp add: ids_issued_def init_def)

lemma ids_issued_send:
  assumes "ids_issued s" and "\<forall>x. ids_issued x \<longrightarrow> ids_issued (d x)"
  shows "ids_issued (snd (priv_send d s data w))"
proof (cases w)
  case False
  with assms(1) show ?thesis using nowait_results [of s d data] by simp
next
  case True
  obtain message f where mf: "MsgFactory (msg_factory s) data = (message, f)"
    by (cases "MsgFactory (msg_factory s) data")
  then have i: "msg_id message = MsgId (msg_factory s)" "last_msg_id f = MsgId (msg_factory s)"
    using MsgFactory_id by blast+
  let ?s2 = "s\<lparr>msg_factory := f, results := (results s)(msg_id message \<mapsto> Result)\<rparr>"
  have s2: "ids_issued ?s2"
    unfolding ids_issued_def
  proof
    fix j assume j: "j \<in> dom (results ?s2)"
    show "j \<le> last_msg_id (msg_factory ?s2)"
    proof (cases "j = msg_id message")
      case True
      with i show ?thesis by simp
    next
      case False
      with j have "j \<in> dom (results s)" by auto
      with assms(1) have "j \<le> last_msg_id (msg_factory s)"
        by (simp add: ids_issued_def)
      with MsgId_fresh [of "msg_factory s"] i(2) show ?thesis by simp
    qed
  qed
  have upd: "ids_issued (x\<lparr>connection := c\<rparr>)" if "ids_issued x" for x c
    using that by (simp add: ids_issued_def)
  have pop: "ids_issued (x\<lparr>results := (results x)(j := None)\<rparr>)" if "ids_issued x" for x j
    using that by (auto simp: ids_issued_def)
  have aw: "ids_issued (snd (await_result d x j data))" if "ids_issued x" for x j
    using that assms(2) pop by (auto simp: await_result_def Let_def split: option.splits)
  have pop0: "ids_issued (s\<lparr>msg_factory := f, connection := c,
                               results := (results s)(msg_id message := None)\<rparr>)" for c
    unfolding ids_issued_def
  proof
    fix j
    assume "j \<in> dom (results (s\<lparr>msg_factory := f, connection := c,
                               results := (results s)(msg_id message := None)\<rparr>))"
    then have "j \<in> dom (results s)" by (auto split: if_splits)
    with assms(1) have "j \<le> last_msg_id (msg_factory s)"
      by (simp add: ids_issued_def)
    with MsgId_fresh [of "msg_factory s"] i(2)
    show "j \<le> last_msg_id (msg_factory (s\<lparr>msg_factory := f, connection := c,
                               results := (results s)(msg_id message := None)\<rparr>))"
      by simp
  qed
  show ?thesis
    using True mf s2 upd pop0 aw
    by (auto simp: priv_send_def Let_def split: option.splits prod.splits)
qed

section \<open>The salts of \<^verbatim>\<open>start\<close>\<close>









section \<open>The retries of \<^verbatim>\<open>send\<close>\<close>

lemma send_returned:
  assumes "priv_send (on_reply_wait (env k)) (wait_connected (on_connect_wait (env k)) s) data True
             = (Inr r, s1)"
  shows "send env k s data retries
           = Some (Inr r, s1,
                   [WaitConnected (is_connected (wait_connected (on_connect_wait (env k)) s)), CallSend])"
  using assms by (subst send.simps) (simp add: Let_def)

lemma send_raised:
  assumes "priv_send (on_reply_wait (env k)) (wait_connected (on_connect_wait (env k)) s) data True
             = (Inl e, s1)"
    and "\<not> (is_OSError e \<or> is_TimeoutError e \<or> is_InternalServerError e) \<or> retries = 0"
  shows "send env k s data retries
           = Some (Inl e, s1,
                   [WaitConnected (is_connected (wait_connected (on_connect_wait (env k)) s)), CallSend])"
  using assms by (subst send.simps) (auto simp add: Let_def)

lemma send_retried:
  assumes "priv_send (on_reply_wait (env k)) (wait_connected (on_connect_wait (env k)) s) data True
             = (Inl e, s1)"
    and "is_OSError e \<or> is_TimeoutError e \<or> is_InternalServerError e" and "retries \<noteq> 0"
  shows "send env k s data retries
           = Option.bind (send env (Suc k) (on_sleep (env k) s1) data (retries - 1))
               (\<lambda>out. Some (fst out, fst (snd out),
                  [WaitConnected (is_connected (wait_connected (on_connect_wait (env k)) s)), CallSend]
                  @ Sleep 500 # snd (snd out)))"
  using assms by (subst send.simps) (auto simp add: Let_def)

lemma send_bounded:
  "\<exists>r s' tr. send env k s data (int n) = Some (r, s', tr) \<and>
      tr \<noteq> [] \<and> hd tr = WaitConnected (is_connected (wait_connected (on_connect_wait (env k)) s)) \<and>
      count_list tr CallSend \<le> n + 1 \<and> count_list tr (Sleep 500) + 1 = count_list tr CallSend"
proof (induction n arbitrary: k s)
  case 0
  obtain o1 s1 where p: "priv_send (on_reply_wait (env k))
      (wait_connected (on_connect_wait (env k)) s) data True = (o1, s1)"
    by (cases "priv_send (on_reply_wait (env k)) (wait_connected (on_connect_wait (env k)) s) data True")
  show ?case
  proof (cases o1)
    case (Inl e)
    with p show ?thesis using send_raised [of env k s data e s1 0] by simp
  next
    case (Inr r)
    with p show ?thesis using send_returned [of env k s data r s1 0] by simp
  qed
next
  case (Suc n)
  obtain o1 s1 where p: "priv_send (on_reply_wait (env k))
      (wait_connected (on_connect_wait (env k)) s) data True = (o1, s1)"
    by (cases "priv_send (on_reply_wait (env k)) (wait_connected (on_connect_wait (env k)) s) data True")
  show ?case
  proof (cases o1)
    case (Inr r)
    with p show ?thesis using send_returned [of env k s data r s1 "int (Suc n)"] by simp
  next
    case (Inl e)
    show ?thesis
    proof (cases "is_OSError e \<or> is_TimeoutError e \<or> is_InternalServerError e")
      case False
      with p Inl show ?thesis using send_raised [of env k s data e s1 "int (Suc n)"] by simp
    next
      case True
      from Suc.IH [of "Suc k" "on_sleep (env k) s1"]
      obtain r s' tr where rec: "send env (Suc k) (on_sleep (env k) s1) data (int n) = Some (r, s', tr)"
        and b: "count_list tr CallSend \<le> n + 1" "count_list tr (Sleep 500) + 1 = count_list tr CallSend"
        by blast
      have "int (Suc n) - 1 = int n" by simp
      with p Inl True rec show ?thesis
        using send_retried [of env k s data e s1 "int (Suc n)"] b by simp
    qed
  qed
qed

section \<open>What the callers see once the session is stopped\<close>




section \<open>The retry policy of \<^verbatim>\<open>send\<close>\<close>

text \<open>
  C6. \<^verbatim>\<open>send\<close> first waits on \<open>is_connected\<close>: with the latch set it goes on at once,
  the session as it is; with the latch not set the other tasks run until it is set or
  \<open>WAIT_TIMEOUT\<close> is up, and \<^verbatim>\<open>send\<close> goes on with the session \<open>s0\<close> as they left it.
  Then it calls \<^verbatim>\<open>_send\<close> on \<open>s0\<close>. A returned value is returned. An exception that is
  not \<open>OSError\<close>, \<open>TimeoutError\<close> or \<open>InternalServerError\<close> is raised at once, with no
  retry. One of these three is raised when \<open>retries\<close> is 0; otherwise \<^verbatim>\<open>send\<close> sleeps
  0.5 s and is \<^verbatim>\<open>send\<close> with \<open>retries - 1\<close>. So, for \<open>retries\<close> \<open>\<ge>\<close> 0, \<^verbatim>\<open>send\<close> ends
  after at most \<open>retries + 1\<close> calls of \<^verbatim>\<open>_send\<close>, one sleep between two calls: at most
  6 for the default \<open>MAX_RETRIES\<close> = 5.
\<close>

theorem send_retry_policy:
  assumes "s0 = (if is_connected s then s else on_connect_wait (env k) s)"
    and "priv_send (on_reply_wait (env k)) s0 data True = (outcome, s1)"
    and "first = [WaitConnected (is_connected s0), CallSend]"
  shows "(\<forall>r. outcome = Inr r \<longrightarrow> send env k s data retries = Some (Inr r, s1, first)) \<and>
    (\<forall>e. outcome = Inl e \<and> \<not> (is_OSError e \<or> is_TimeoutError e \<or> is_InternalServerError e) \<longrightarrow>
         send env k s data retries = Some (Inl e, s1, first)) \<and>
    (\<forall>e. outcome = Inl e \<and> (is_OSError e \<or> is_TimeoutError e \<or> is_InternalServerError e) \<longrightarrow>
         (retries = 0 \<longrightarrow> send env k s data retries = Some (Inl e, s1, first)) \<and>
         (retries \<noteq> 0 \<longrightarrow>
            send env k s data retries
              = Option.bind (send env (Suc k) (on_sleep (env k) s1) data (retries - 1))
                  (\<lambda>out. Some (fst out, fst (snd out), first @ Sleep 500 # snd (snd out))))) \<and>
    (0 \<le> retries \<longrightarrow>
       (\<exists>r s' tr. send env k s data retries = Some (r, s', tr) \<and> hd tr = hd first \<and>
          count_list tr CallSend \<le> nat retries + 1 \<and>
          count_list tr (Sleep 500) + 1 = count_list tr CallSend)) \<and>
    (\<exists>r s' tr. send env k s data MAX_RETRIES = Some (r, s', tr) \<and> count_list tr CallSend \<le> 6)"
proof -
  have w: "wait_connected (on_connect_wait (env k)) s = s0"
    by (simp only: assms(1) wait_connected_def)
  have p: "priv_send (on_reply_wait (env k)) (wait_connected (on_connect_wait (env k)) s) data True
             = (outcome, s1)"
    by (simp only: w assms(2))
  have f: "first = [WaitConnected (is_connected (wait_connected (on_connect_wait (env k)) s)), CallSend]"
    by (simp only: w assms(3))
  show ?thesis
  proof (intro conjI allI impI)
    fix r assume "outcome = Inr r"
    with p f show "send env k s data retries = Some (Inr r, s1, first)"
      using send_returned [of env k s data r s1 retries] by simp
  next
    fix e assume "outcome = Inl e \<and> \<not> (is_OSError e \<or> is_TimeoutError e \<or> is_InternalServerError e)"
    with p f show "send env k s data retries = Some (Inl e, s1, first)"
      using send_raised [of env k s data e s1 retries] by simp
  next
    fix e assume "outcome = Inl e \<and> (is_OSError e \<or> is_TimeoutError e \<or> is_InternalServerError e)"
      and "retries = 0"
    with p f show "send env k s data retries = Some (Inl e, s1, first)"
      using send_raised [of env k s data e s1 retries] by simp
  next
    fix e assume "outcome = Inl e \<and> (is_OSError e \<or> is_TimeoutError e \<or> is_InternalServerError e)"
      and "retries \<noteq> 0"
    with p f show "send env k s data retries
                = Option.bind (send env (Suc k) (on_sleep (env k) s1) data (retries - 1))
                    (\<lambda>out. Some (fst out, fst (snd out), first @ Sleep 500 # snd (snd out)))"
      using send_retried [of env k s data e s1 retries] by simp
  next
    assume "0 \<le> retries"
    then have "int (nat retries) = retries" by simp
    with f show "\<exists>r s' tr. send env k s data retries = Some (r, s', tr) \<and> hd tr = hd first \<and>
            count_list tr CallSend \<le> nat retries + 1 \<and>
            count_list tr (Sleep 500) + 1 = count_list tr CallSend"
      using send_bounded [of env k s data "nat retries"] by auto
  next
    show "\<exists>r s' tr. send env k s data MAX_RETRIES = Some (r, s', tr) \<and> count_list tr CallSend \<le> 6"
      using send_bounded [of env k s data 5] by (auto simp: MAX_RETRIES_def)
  qed
qed

text \<open>
  Witness of C6. The transport fails the first two writes and the third request is
  answered: \<^verbatim>\<open>send\<close> with 5 retries returns the answer after two sleeps. And a session
  that is not connected: during the wait of \<^verbatim>\<open>send\<close> the session gets its transport and
  \<open>is_connected\<close> is set, and \<^verbatim>\<open>_send\<close> is called on the session so connected, whose
  request is answered.
\<close>

theorem send_retry_policy_witness:
  "fst (priv_send (on_reply_wait (scripted 0)) flaky GetConfig True) = Inl OSError \<and>
   send scripted 0 flaky GetConfig 5
     = Option.bind
         (send scripted (Suc 0)
            (on_sleep (scripted 0)
               (snd (priv_send (on_reply_wait (scripted 0)) flaky GetConfig True)))
            GetConfig (5 - 1))
         (\<lambda>out. Some (fst out, fst (snd out),
                   [WaitConnected True, CallSend] @ Sleep 500 # snd (snd out))) \<and>
   map_option (\<lambda>out. (fst out, snd (snd out))) (send scripted 0 flaky GetConfig 5)
     = Some (Inr (Some (Other ''Config'')),
         [WaitConnected True, CallSend, Sleep 500, WaitConnected True, CallSend,
          Sleep 500, WaitConnected True, CallSend]) \<and>
   \<not> is_connected offline \<and> is_connected (connects offline) \<and>
   fst (priv_send (on_reply_wait (reconnecting 0)) (connects offline) GetConfig True)
     = Inr (Some (Other ''Config'')) \<and>
   send reconnecting 0 offline GetConfig 5
     = Some (Inr (Some (Other ''Config'')),
             snd (priv_send (on_reply_wait (reconnecting 0)) (connects offline) GetConfig True),
             [WaitConnected True, CallSend])"
proof -
  let ?p = "priv_send (on_reply_wait (scripted 0)) flaky GetConfig True"
  let ?q = "priv_send (on_reply_wait (reconnecting 0)) (connects offline) GetConfig True"
  have failed: "fst ?p = Inl OSError"
    by code_simp
  have set: "flaky = (if is_connected flaky then flaky else on_connect_wait (scripted 0) flaky)"
    by (simp add: flaky_def online_def)
  have latch: "[WaitConnected True, CallSend] = [WaitConnected (is_connected flaky), CallSend]"
    by (simp add: flaky_def online_def)
  have run: "map_option (\<lambda>out. (fst out, snd (snd out))) (send scripted 0 flaky GetConfig 5)
     = Some (Inr (Some (Other ''Config'')),
         [WaitConnected True, CallSend, Sleep 500, WaitConnected True, CallSend,
          Sleep 500, WaitConnected True, CallSend])"
    by code_simp
  have pair: "?p = (fst ?p, snd ?p)" "?q = (fst ?q, snd ?q)"
    by simp_all
  have unset: "\<not> is_connected offline"
    by (simp add: offline_def)
  have waited: "connects offline
      = (if is_connected offline then offline else on_connect_wait (reconnecting 0) offline)"
    by (simp add: unset reconnecting_def)
  have now: "is_connected (connects offline)"
    by (simp add: connects_def)
  then have latch2: "[WaitConnected True, CallSend]
      = [WaitConnected (is_connected (connects offline)), CallSend]"
    by simp
  have answered: "fst ?q = Inr (Some (Other ''Config''))"
    by code_simp
  from send_retry_policy [of flaky flaky scripted 0 GetConfig "fst ?p" "snd ?p"
         "[WaitConnected True, CallSend]" 5, OF set pair(1) latch] failed
  have one: "send scripted 0 flaky GetConfig 5
     = Option.bind
         (send scripted (Suc 0) (on_sleep (scripted 0) (snd ?p)) GetConfig (5 - 1))
         (\<lambda>out. Some (fst out, fst (snd out),
                   [WaitConnected True, CallSend] @ Sleep 500 # snd (snd out)))"
    by simp
  from send_retry_policy [of "connects offline" offline reconnecting 0 GetConfig "fst ?q" "snd ?q"
         "[WaitConnected True, CallSend]" 5, OF waited pair(2) latch2] answered
  have two: "send reconnecting 0 offline GetConfig 5
     = Some (Inr (Some (Other ''Config'')), snd ?q, [WaitConnected True, CallSend])"
    by simp
  from failed one run unset now answered two show ?thesis
    by (simp only: simp_thms)
qed

text \<open>
  C10. When \<open>is_connected\<close> is still not set as the first wait of \<^verbatim>\<open>send\<close> ends, nothing
  is raised for it: \<^verbatim>\<open>_send\<close> is called all the same, and what \<^verbatim>\<open>send\<close> gives is what
  its calls of \<^verbatim>\<open>_send\<close> give (with \<open>retries\<close> = 0, or an outcome that is not retried,
  the outcome of the first call).
\<close>

theorem connect_timeout_is_swallowed:
  assumes "\<not> is_connected (wait_connected (on_connect_wait (env k)) s)"
    and "priv_send (on_reply_wait (env k)) (wait_connected (on_connect_wait (env k)) s) data True
             = (outcome, s1)"
  shows "send env k s data 0 = Some (outcome, s1, [WaitConnected False, CallSend]) \<and>
    (0 \<le> retries \<longrightarrow>
       (\<exists>r s' tr. send env k s data retries = Some (r, s', WaitConnected False # CallSend # tr))) \<and>
    (\<not> (\<exists>e. outcome = Inl e \<and> (is_OSError e \<or> is_TimeoutError e \<or> is_InternalServerError e)) \<longrightarrow>
       send env k s data retries = Some (outcome, s1, [WaitConnected False, CallSend]))"
proof (intro conjI impI)
  show "send env k s data 0 = Some (outcome, s1, [WaitConnected False, CallSend])"
    using assms send_returned [of env k s data _ s1 0] send_raised [of env k s data _ s1 0]
    by (cases outcome) simp_all
next
  assume "\<not> (\<exists>e. outcome = Inl e \<and> (is_OSError e \<or> is_TimeoutError e \<or> is_InternalServerError e))"
  then show "send env k s data retries = Some (outcome, s1, [WaitConnected False, CallSend])"
    using assms send_returned [of env k s data _ s1 retries]
      send_raised [of env k s data _ s1 retries]
    by (cases outcome) simp_all
next
  assume nonneg: "0 \<le> retries"
  show "\<exists>r s' tr. send env k s data retries = Some (r, s', WaitConnected False # CallSend # tr)"
  proof (cases "\<exists>e. outcome = Inl e \<and> (is_OSError e \<or> is_TimeoutError e \<or> is_InternalServerError e)
                  \<and> retries \<noteq> 0")
    case False
    then show ?thesis
      using assms send_returned [of env k s data _ s1 retries]
        send_raised [of env k s data _ s1 retries]
      by (cases outcome) auto
  next
    case True
    then obtain e where e: "outcome = Inl e"
      "is_OSError e \<or> is_TimeoutError e \<or> is_InternalServerError e" "retries \<noteq> 0"
      by blast
    from nonneg e(3) have "int (nat (retries - 1)) = retries - 1" by simp
    then obtain r s' tr where
      "send env (Suc k) (on_sleep (env k) s1) data (retries - 1) = Some (r, s', tr)"
      using send_bounded [of env "Suc k" "on_sleep (env k) s1" data "nat (retries - 1)"] by auto
    with assms e show ?thesis
      using send_retried [of env k s data e s1 retries] by simp
  qed
qed

text \<open>
  Witness of C10: on a session that never connected, \<^verbatim>\<open>send\<close> raises the
  \<open>AttributeError\<close> of \<^verbatim>\<open>_send\<close> (there is no salt yet); on a stopped session it raises
  the \<open>OSError\<close> of the transport.
\<close>

theorem connect_timeout_is_swallowed_witness:
  "\<not> is_connected (wait_connected (on_connect_wait (scripted 0)) fresh) \<and>
   fst (priv_send (on_reply_wait (scripted 0)) (wait_connected (on_connect_wait (scripted 0)) fresh)
          GetConfig True) = Inl AttributeError \<and>
   map_option (\<lambda>out. (fst out, snd (snd out))) (send scripted 0 fresh GetConfig 5)
     = Some (Inl AttributeError, [WaitConnected False, CallSend]) \<and>
   map_option (\<lambda>out. (fst out, snd (snd out))) (send scripted 0 offline GetConfig 0)
     = Some (Inl OSError, [WaitConnected False, CallSend])"
proof -
  let ?p = "priv_send (on_reply_wait (scripted 0))
              (wait_connected (on_connect_wait (scripted 0)) fresh) GetConfig True"
  let ?q = "priv_send (on_reply_wait (scripted 0))
              (wait_connected (on_connect_wait (scripted 0)) offline) GetConfig True"
  have latch: "\<not> is_connected (wait_connected (on_connect_wait (scripted 0)) fresh)"
    "\<not> is_connected (wait_connected (on_connect_wait (scripted 0)) offline)"
    by code_simp+
  have failed: "fst ?p = Inl AttributeError" "fst ?q = Inl OSError"
    by code_simp+
  have pair: "?p = (fst ?p, snd ?p)" "?q = (fst ?q, snd ?q)"
    by simp_all
  from connect_timeout_is_swallowed [of scripted 0 fresh GetConfig "fst ?p" "snd ?p" 5,
         OF latch(1) pair(1)]
       connect_timeout_is_swallowed [of scripted 0 offline GetConfig "fst ?q" "snd ?q" 0,
         OF latch(2) pair(2)] latch failed
  show ?thesis
    by simp
qed

section \<open>The three salts of a pass of \<^verbatim>\<open>start\<close>\<close>








section \<open>Restart\<close>

lemma restart_leaves_session: "restart env s = (Inr (), s)"
  by (simp add: restart_def)

text \<open>
  C2 on the code: \<^verbatim>\<open>restart\<close> awaits neither \<^verbatim>\<open>self.stop()\<close> nor \<^verbatim>\<open>self.start()\<close>,
  so it returns the session as it found it. On the waiting session the slot of request
  4000 is not signalled, no salt is assigned and nothing is written, whereas \<^verbatim>\<open>stop\<close>
  followed by \<^verbatim>\<open>start\<close>, both run to completion, signals the slot, assigns the three
  salts and writes the three requests of the handshake to a new transport.
\<close>

theorem restart_awaits_nothing:
  "restart again waiting = (Inr (), waiting) \<and>
   map_option event (results (snd (restart again waiting)) 4000) = Some False \<and>
   salt_trace (snd (restart again waiting)) = [] \<and>
   map_option outbox (connection (snd (restart again waiting))) = Some [] \<and>
   map_option fst (restart_spec again waiting) = Some (Inr ()) \<and>
   map_option ((\<lambda>rs. map_option event (rs 4000)) \<circ> results \<circ> snd) (restart_spec again waiting)
     = Some (Some True) \<and>
   map_option (salt_trace \<circ> snd) (restart_spec again waiting)
     = Some [FutureSalt 0 0 INITIAL_SALT, FutureSalt 0 0 0x1122334455667788,
             FutureSalt 0 3600 42] \<and>
   map_option (map_option (length \<circ> outbox) \<circ> connection \<circ> snd) (restart_spec again waiting)
     = Some (Some 3)"
proof -
  have code: "restart again waiting = (Inr (), waiting)"
    by (rule restart_leaves_session)
  have before: "map_option event (results waiting 4000) = Some False" "salt_trace waiting = []"
    "map_option outbox (connection waiting) = Some []"
    by (simp_all add: waiting_def example_defs)
  have "map_option (\<lambda>out. (fst out, map_option event (results (snd out) 4000),
            salt_trace (snd out), map_option (length \<circ> outbox) (connection (snd out))))
          (restart_spec again waiting)
     = Some (Inr (), Some True,
         [FutureSalt 0 0 INITIAL_SALT, FutureSalt 0 0 0x1122334455667788, FutureSalt 0 3600 42],
         Some 3)"
    by code_simp
  then have spec: "map_option fst (restart_spec again waiting) = Some (Inr ())"
    "map_option ((\<lambda>rs. map_option event (rs 4000)) \<circ> results \<circ> snd) (restart_spec again waiting)
     = Some (Some True)"
    "map_option (salt_trace \<circ> snd) (restart_spec again waiting)
     = Some [FutureSalt 0 0 INITIAL_SALT, FutureSalt 0 0 0x1122334455667788,
             FutureSalt 0 3600 42]"
    "map_option (map_option (length \<circ> outbox) \<circ> connection \<circ> snd) (restart_spec again waiting)
     = Some (Some 3)"
    by (cases "restart_spec again waiting"; auto)+
  from code before spec show ?thesis
    by simp
qed

end
